theory Spec2Isabelle
  imports Complex_Main
begin

section \<open>Numbers: Go's float64\<close>

text \<open>
  Lox numbers are Go \<^verbatim>\<open>float64\<close> values (IEEE-754 binary64). A value is a finite
  rational that binary64 can represent (\<open>Fin 0\<close> is \<open>+0\<close>), the negative zero, an
  infinity or a NaN (NaN payloads cannot be observed by the interpreter). Arithmetic
  computes the exact rational result and rounds it to the nearest representable value,
  ties to even, as the hardware does.
\<close>

datatype float64 = Fin rat | NegZero | PInf | NInf | NaN

definition pow2 :: "int \<Rightarrow> rat" where
  "pow2 e = (if 0 \<le> e then 2 ^ nat e else 1 / 2 ^ nat (- e))"

fun bitlen :: "nat \<Rightarrow> nat" where
  "bitlen n = (if n = 0 then 0 else Suc (bitlen (n div 2)))"

declare bitlen.simps [simp del]

text \<open>\<open>ilog2 q\<close> is \<open>\<lfloor>log\<^sub>2 q\<rfloor>\<close> for a positive rational \<open>q\<close>.\<close>

definition ilog2 :: "rat \<Rightarrow> int" where
  "ilog2 q = (if 1 \<le> q then int (bitlen (nat \<lfloor>q\<rfloor>)) - 1
              else - int (bitlen (nat (\<lceil>1 / q\<rceil> - 1))))"

definition roundEven :: "rat \<Rightarrow> int" where
  "roundEven q = (let f = \<lfloor>q\<rfloor>; r = q - of_int f in
     if r < 1 / 2 then f else if 1 / 2 < r then f + 1 else if even f then f else f + 1)"

text \<open>
  Rounding a positive rational to binary64: 53 significant bits, the unit in the last
  place never below \<open>2\<^sup>-\<^sup>1\<^sup>0\<^sup>7\<^sup>4\<close> (subnormals); \<open>None\<close> is overflow.
\<close>

definition roundPos :: "rat \<Rightarrow> rat option" where
  "roundPos q = (let u = max (ilog2 q - 52) (- 1074);
                     v = of_int (roundEven (q / pow2 u)) * pow2 u
                 in if pow2 1024 \<le> v then None else Some v)"

definition round64 :: "rat \<Rightarrow> float64" where
  "round64 q =
     (if q = 0 then Fin 0
      else if 0 < q then (case roundPos q of None \<Rightarrow> PInf | Some v \<Rightarrow> Fin v)
      else (case roundPos (- q) of None \<Rightarrow> NInf
            | Some v \<Rightarrow> if v = 0 then NegZero else Fin (- v)))"

fun isNaN :: "float64 \<Rightarrow> bool" where
  "isNaN NaN = True"
| "isNaN _ = False"

fun isInf :: "float64 \<Rightarrow> bool" where
  "isInf PInf = True"
| "isInf NInf = True"
| "isInf _ = False"

fun isZero :: "float64 \<Rightarrow> bool" where
  "isZero (Fin q) = (q = 0)"
| "isZero NegZero = True"
| "isZero _ = False"

fun signbit :: "float64 \<Rightarrow> bool" where
  "signbit (Fin q) = (q < 0)"
| "signbit NegZero = True"
| "signbit NInf = True"
| "signbit _ = False"

text \<open>The rational value of a finite float (zero for the others, never used there).\<close>

fun fin :: "float64 \<Rightarrow> rat" where
  "fin (Fin q) = q"
| "fin _ = 0"

definition signedInf :: "bool \<Rightarrow> float64" where
  "signedInf neg = (if neg then NInf else PInf)"

definition signedZero :: "bool \<Rightarrow> float64" where
  "signedZero neg = (if neg then NegZero else Fin 0)"

fun fneg :: "float64 \<Rightarrow> float64" where
  "fneg (Fin q) = (if q = 0 then NegZero else Fin (- q))"
| "fneg NegZero = Fin 0"
| "fneg PInf = NInf"
| "fneg NInf = PInf"
| "fneg NaN = NaN"

definition fadd :: "float64 \<Rightarrow> float64 \<Rightarrow> float64" where
  "fadd a b =
     (if isNaN a \<or> isNaN b then NaN
      else if isInf a then (if isInf b \<and> a \<noteq> b then NaN else a)
      else if isInf b then b
      else if a = NegZero then b
      else if b = NegZero then a
      else round64 (fin a + fin b))"

definition fsub :: "float64 \<Rightarrow> float64 \<Rightarrow> float64" where
  "fsub a b = fadd a (fneg b)"

definition fmul :: "float64 \<Rightarrow> float64 \<Rightarrow> float64" where
  "fmul a b =
     (if isNaN a \<or> isNaN b then NaN
      else if isInf a \<or> isInf b then
        (if isZero a \<or> isZero b then NaN else signedInf (signbit a \<noteq> signbit b))
      else if isZero a \<or> isZero b then signedZero (signbit a \<noteq> signbit b)
      else round64 (fin a * fin b))"

definition fdiv :: "float64 \<Rightarrow> float64 \<Rightarrow> float64" where
  "fdiv a b =
     (if isNaN a \<or> isNaN b then NaN
      else if isInf a then (if isInf b then NaN else signedInf (signbit a \<noteq> signbit b))
      else if isInf b then signedZero (signbit a \<noteq> signbit b)
      else if isZero b then (if isZero a then NaN else signedInf (signbit a \<noteq> signbit b))
      else if isZero a then signedZero (signbit a \<noteq> signbit b)
      else round64 (fin a / fin b))"

text \<open>Go's \<^verbatim>\<open>==\<close> and \<^verbatim>\<open><\<close> on float64: every comparison with a NaN is false, the zeros are equal.\<close>

definition feq :: "float64 \<Rightarrow> float64 \<Rightarrow> bool" where
  "feq a b = (\<not> isNaN a \<and> \<not> isNaN b \<and> (a = b \<or> (isZero a \<and> isZero b)))"

definition flt :: "float64 \<Rightarrow> float64 \<Rightarrow> bool" where
  "flt a b =
     (if isNaN a \<or> isNaN b then False
      else if a = PInf \<or> b = NInf then False
      else if a = NInf \<or> b = PInf then True
      else fin a < fin b)"

definition fle :: "float64 \<Rightarrow> float64 \<Rightarrow> bool" where
  "fle a b = (flt a b \<or> feq a b)"


section \<open>Tokens (scanner.go)\<close>

datatype TokenType =
    LEFT_PAREN | RIGHT_PAREN | LEFT_BRACE | RIGHT_BRACE
  | COMMA | DOT | MINUS | PLUS | SEMICOLON | SLASH | STAR
  | BANG | BANG_EQUAL | EQUAL | EQUAL_EQUAL
  | GREATER | GREATER_EQUAL | LESS | LESS_EQUAL
  | IDENTIFIER | STRING | NUMBER
  | AND | CLASS | ELSE | FALSE | FUN | FOR | IF | NIL | OR
  | PRINT | RETURN | SUPER | THIS | TRUE | VAR | WHILE
  | EOF

text \<open>
  The dynamic values that the \<^verbatim>\<open>interface{}\<close> of a token's literal and of a
  \<^verbatim>\<open>Literal\<close> node hold: nil, a bool, a float64 or a string.
\<close>

datatype lit = LNil | LBool bool | LNum float64 | LStr string

record Token =
  Type :: TokenType
  Lexeme :: string
  TokLiteral :: lit
  Line :: int

section \<open>Expressions and statements (the AST)\<close>

datatype expr =
    Assign Token expr
  | Binary expr Token expr
  | Call expr Token "expr list"
  | Get expr Token
  | SetExpr expr Token expr
  | Grouping expr
  | Literal lit
  | Logical expr Token expr
  | Super Token Token
  | This Token
  | Unary Token expr
  | Variable Token int

text \<open>
  A nil \<^verbatim>\<open>Expr\<close> or \<^verbatim>\<open>Stmt\<close> is \<open>None\<close>. \<^verbatim>\<open>ClassStmt.Superclass\<close> is a
  \<^verbatim>\<open>*Variable\<close>: the name token and the \<^verbatim>\<open>Unique\<close> number, or nil.
\<close>

datatype stmt =
    ExprStmt expr
  | ClassStmt Token "(Token \<times> int) option" "functionStmt list"
  | FunctionS functionStmt
  | IfStmt expr stmt "stmt option"
  | PrintStmt expr
  | ReturnStmt Token "expr option"
  | WhileStmt expr stmt
  | BlockStmt "stmt list"
  | VariableStmt Token "expr option"
and functionStmt =
    FunctionStmt (Name: Token) (Params: "Token list") (Body: "stmt list")

section \<open>Runtime values, environments and instances\<close>

text \<open>
  A Go map is an association list; \<open>None\<close> is the nil map, which can be read but not
  written. Pointers to environments and instances are addresses into the two heaps of
  the interpreter state; a nil pointer is \<open>None\<close>.
\<close>

type_synonym ('k, 'v) gomap = "('k \<times> 'v) list option"

definition mapGet :: "('k, 'v) gomap \<Rightarrow> 'k \<Rightarrow> 'v option" where
  "mapGet m k = (case m of None \<Rightarrow> None | Some kvs \<Rightarrow> map_of kvs k)"

fun mapPut :: "'k \<Rightarrow> 'v \<Rightarrow> ('k \<times> 'v) list \<Rightarrow> ('k \<times> 'v) list" where
  "mapPut k v [] = [(k, v)]"
| "mapPut k v ((k', v') # m) = (if k = k' then (k, v) # m else (k', v') # mapPut k v m)"

datatype func =
  Function (Declaration: functionStmt) (Closure: "nat option") (isInitializer: bool)

text \<open>
  \<^verbatim>\<open>Class.Superclass\<close> is a \<^verbatim>\<open>*Class\<close> that nothing writes through after the class is
  built, so the class it points to is held by value.
\<close>

datatype loxClass =
  Class (ClassName: string) (Methods: "(string, func) gomap") (Superclass: "loxClass option")

datatype val =
    VNil | VBool bool | VNum float64 | VStr string
  | VFunction func | VClass loxClass | VInstance nat | VClockBuiltin

record environment =
  envMap :: "(string, val) gomap"
  enclosing :: "nat option"
  envInterpreter :: bool

record Instance =
  instClass :: loxClass
  Fields :: "(string, val) gomap"

fun litVal :: "lit \<Rightarrow> val" where
  "litVal LNil = VNil"
| "litVal (LBool b) = VBool b"
| "litVal (LNum x) = VNum x"
| "litVal (LStr s) = VStr s"

section \<open>Equality of runtime values: reflect.DeepEqual\<close>

text \<open>
  \<^verbatim>\<open>reflect.DeepEqual\<close> compares two values of the same dynamic type field by field;
  two pointers are equal when they are the same pointer or point to deeply equal
  values, two maps when both are nil or neither is, they have the same size and every
  key of the first maps to deeply equal values in both; a pair of pointers met again
  during the walk is taken to be equal. On the finite heap that is the largest relation
  closed under these rules, which is what the coinductive definition says. Declarations
  are compared as syntax trees (the scanner produces no NaN literal).
\<close>

datatype node =
    NVal val
  | NEnv "nat option"
  | NClass loxClass
  | NClassPtr "loxClass option"

definition mapsRel :: "('v \<Rightarrow> 'v \<Rightarrow> bool) \<Rightarrow> ('k, 'v) gomap \<Rightarrow> ('k, 'v) gomap \<Rightarrow> bool" where
  "mapsRel R m1 m2 =
     (case m1 of
        None \<Rightarrow> m2 = None
      | Some a \<Rightarrow> (case m2 of None \<Rightarrow> False
                   | Some b \<Rightarrow> (\<forall>k. rel_option R (map_of a k) (map_of b k))))"

lemma mapsRel_mono [mono]:
  "(\<And>x y. R x y \<longrightarrow> R' x y) \<Longrightarrow> mapsRel R m1 m2 \<longrightarrow> mapsRel R' m1 m2"
  unfolding mapsRel_def
  by (auto split: option.splits intro: option.rel_mono_strong)

coinductive deq :: "environment list \<Rightarrow> Instance list \<Rightarrow> node \<Rightarrow> node \<Rightarrow> bool"
  for es :: "environment list" and ins :: "Instance list"
where
  deq_nil: "deq es ins (NVal VNil) (NVal VNil)"
| deq_bool: "deq es ins (NVal (VBool b)) (NVal (VBool b))"
| deq_num: "feq a b \<Longrightarrow> deq es ins (NVal (VNum a)) (NVal (VNum b))"
| deq_str: "deq es ins (NVal (VStr s)) (NVal (VStr s))"
| deq_fun:
    "Declaration f = Declaration g \<Longrightarrow>
     deq es ins (NEnv (Closure f)) (NEnv (Closure g)) \<Longrightarrow>
     isInitializer f = isInitializer g \<Longrightarrow>
     deq es ins (NVal (VFunction f)) (NVal (VFunction g))"
| deq_classval: "deq es ins (NClass c) (NClass d) \<Longrightarrow> deq es ins (NVal (VClass c)) (NVal (VClass d))"
| deq_inst_same: "deq es ins (NVal (VInstance p)) (NVal (VInstance p))"
| deq_inst:
    "deq es ins (NClass (instClass (ins ! p))) (NClass (instClass (ins ! q))) \<Longrightarrow>
     mapsRel (\<lambda>v w. deq es ins (NVal v) (NVal w)) (Fields (ins ! p)) (Fields (ins ! q)) \<Longrightarrow>
     deq es ins (NVal (VInstance p)) (NVal (VInstance q))"
| deq_clock: "deq es ins (NVal VClockBuiltin) (NVal VClockBuiltin)"
| deq_env_nil: "deq es ins (NEnv None) (NEnv None)"
| deq_env_same: "deq es ins (NEnv (Some p)) (NEnv (Some p))"
| deq_env:
    "mapsRel (\<lambda>v w. deq es ins (NVal v) (NVal w)) (envMap (es ! p)) (envMap (es ! q)) \<Longrightarrow>
     deq es ins (NEnv (enclosing (es ! p))) (NEnv (enclosing (es ! q))) \<Longrightarrow>
     envInterpreter (es ! p) = envInterpreter (es ! q) \<Longrightarrow>
     deq es ins (NEnv (Some p)) (NEnv (Some q))"
| deq_class:
    "ClassName c = ClassName d \<Longrightarrow>
     mapsRel (\<lambda>f g. deq es ins (NVal (VFunction f)) (NVal (VFunction g))) (Methods c) (Methods d) \<Longrightarrow>
     deq es ins (NClassPtr (Superclass c)) (NClassPtr (Superclass d)) \<Longrightarrow>
     deq es ins (NClass c) (NClass d)"
| deq_cptr_nil: "deq es ins (NClassPtr None) (NClassPtr None)"
| deq_cptr: "deq es ins (NClass c) (NClass d) \<Longrightarrow> deq es ins (NClassPtr (Some c)) (NClassPtr (Some d))"


definition DeepEqual :: "environment list \<Rightarrow> Instance list \<Rightarrow> val \<Rightarrow> val \<Rightarrow> bool" where
  "DeepEqual es ins v w = deq es ins (NVal v) (NVal w)"

section \<open>Panics\<close>

text \<open>
  The interpreter unwinds with \<^verbatim>\<open>panic\<close>: a \<^verbatim>\<open>runtimeError{line, msg}\<close>, a
  \<^verbatim>\<open>returnable{Value}\<close>, or a panic of the Go runtime (a failed type assertion, a nil
  dereference, an unhashable map key, an index out of range, an explicit
  \<^verbatim>\<open>panic("...")\<close>). The message of a runtime error is kept as its format and arguments;
  \<open>msgText\<close> renders it, given how \<^verbatim>\<open>fmt\<close> prints the verbs. \<open>OutOfFuel\<close> is not a Go
  panic: it marks a run that did not finish within the fuel of the model.
\<close>

datatype rtmsg =
    UndefinedGlobalAssign string
  | UndefinedGlobal string
  | UndefinedLocalAssign string
  | UndefinedLocal string
  | MustBeNumbers string val val
  | MustBeStrings string val val
  | PlusOperands val
  | OnlyCallFunctions
  | ExpectedArgs nat nat
  | OnlyInstancesProperties
  | UndefinedProperty string
  | OnlyInstancesFields
  | SuperclassMustBeClass



datatype gopanic =
    NilDereference | TypeAssertion | UnhashableKey | IndexOutOfRange | NilMapAssignment
  | Unreachable string

datatype panic =
    RuntimeError int rtmsg
  | Returnable val
  | GoPanic gopanic
  | OutOfFuel

section \<open>The interpreter state\<close>

text \<open>
  The fields of \<^verbatim>\<open>Interpreter\<close>, the heap of environments and the heap of instances.
  \<open>Stdout\<close> is the sequence of values handed to \<^verbatim>\<open>fmt.Fprintln\<close>; \<open>clock\<close> is what
  the coming calls of \<^verbatim>\<open>time.Now().Unix()\<close> read (zero once it is used up).
\<close>

record Interpreter =
  Stdout :: "val list"
  localDistance :: "(expr, int) gomap"
  globals :: "nat option"
  env :: "nat option"
  initialized :: bool
  envs :: "environment list"
  insts :: "Instance list"
  clock :: "float64 list"

definition NewInterpreter :: Interpreter where
  "NewInterpreter =
     \<lparr>Stdout = [], localDistance = None, globals = None, env = None, initialized = False,
      envs = [], insts = [], clock = []\<rparr>"

definition allocEnv :: "environment \<Rightarrow> Interpreter \<Rightarrow> nat \<times> Interpreter" where
  "allocEnv e st = (length (envs st), st\<lparr>envs := envs st @ [e]\<rparr>)"

definition allocInstance :: "Instance \<Rightarrow> Interpreter \<Rightarrow> nat \<times> Interpreter" where
  "allocInstance x st = (length (insts st), st\<lparr>insts := insts st @ [x]\<rparr>)"

subsection \<open>environment\<close>

definition ensureInit :: "environment \<Rightarrow> environment" where
  "ensureInit e = (case envMap e of None \<Rightarrow> e\<lparr>envMap := Some []\<rparr> | Some m \<Rightarrow> e)"

definition putEnv :: "string \<Rightarrow> val \<Rightarrow> environment \<Rightarrow> environment" where
  "putEnv name v e =
     e\<lparr>envMap := Some (mapPut name v (case envMap e of None \<Rightarrow> [] | Some m \<Rightarrow> m))\<rparr>"

definition updEnv :: "nat \<Rightarrow> (environment \<Rightarrow> environment) \<Rightarrow> Interpreter \<Rightarrow> Interpreter" where
  "updEnv a f st = st\<lparr>envs := (envs st)[a := f (envs st ! a)]\<rparr>"

definition envDefine :: "nat option \<Rightarrow> string \<Rightarrow> val \<Rightarrow> Interpreter \<Rightarrow> panic option \<times> Interpreter" where
  "envDefine e name v st =
     (case e of
        None \<Rightarrow> (Some (GoPanic NilDereference), st)
      | Some a \<Rightarrow> (None, updEnv a (putEnv name v \<circ> ensureInit) st))"

text \<open>
  \<^verbatim>\<open>assign\<close> and \<^verbatim>\<open>get\<close> walk the chain of enclosing environments. The walk is given
  one step more than the heap has environments: it runs out only on a cyclic chain, on
  which the Go code does not return either.
\<close>

fun assignFrom :: "nat \<Rightarrow> nat \<Rightarrow> Token \<Rightarrow> val \<Rightarrow> Interpreter \<Rightarrow> panic option \<times> Interpreter" where
  "assignFrom 0 a name v st = (Some OutOfFuel, st)"
| "assignFrom (Suc k) a name v st =
     (let st1 = updEnv a ensureInit st in
      case mapGet (envMap (envs st1 ! a)) (Lexeme name) of
        Some old \<Rightarrow> (None, updEnv a (putEnv (Lexeme name) v) st1)
      | None \<Rightarrow>
          (case enclosing (envs st1 ! a) of
             Some a' \<Rightarrow> assignFrom k a' name v st1
           | None \<Rightarrow> (Some (RuntimeError (Line name) (UndefinedGlobalAssign (Lexeme name))), st1)))"

definition assign :: "nat option \<Rightarrow> Token \<Rightarrow> val \<Rightarrow> Interpreter \<Rightarrow> panic option \<times> Interpreter" where
  "assign e name v st =
     (case e of
        None \<Rightarrow> (Some (GoPanic NilDereference), st)
      | Some a \<Rightarrow> assignFrom (Suc (length (envs st))) a name v st)"

fun getFrom :: "nat \<Rightarrow> environment list \<Rightarrow> nat \<Rightarrow> Token \<Rightarrow> panic + val" where
  "getFrom 0 es a tok = Inl OutOfFuel"
| "getFrom (Suc k) es a tok =
     (case mapGet (envMap (es ! a)) (Lexeme tok) of
        Some v \<Rightarrow> Inr v
      | None \<Rightarrow>
          (case enclosing (es ! a) of
             Some a' \<Rightarrow> getFrom k es a' tok
           | None \<Rightarrow> Inl (RuntimeError (Line tok) (UndefinedGlobal (Lexeme tok)))))"

definition get :: "nat option \<Rightarrow> Token \<Rightarrow> Interpreter \<Rightarrow> panic + val" where
  "get e tok st =
     (case e of
        None \<Rightarrow> Inl (GoPanic NilDereference)
      | Some a \<Rightarrow> getFrom (Suc (length (envs st))) (envs st) a tok)"

text \<open>
  \<^verbatim>\<open>ancestor\<close>: the loop \<^verbatim>\<open>for i := 0; i < distance; i++ { env = env.enclosing }\<close>; it
  does not run for a distance below one, and dereferences a nil \<^verbatim>\<open>env\<close> otherwise.
\<close>

fun ancestorN :: "environment list \<Rightarrow> nat option \<Rightarrow> nat \<Rightarrow> gopanic + nat option" where
  "ancestorN es e 0 = Inr e"
| "ancestorN es e (Suc d) =
     (case e of None \<Rightarrow> Inl NilDereference | Some a \<Rightarrow> ancestorN es (enclosing (es ! a)) d)"

definition ancestor :: "nat option \<Rightarrow> int \<Rightarrow> Interpreter \<Rightarrow> gopanic + nat option" where
  "ancestor e distance st = ancestorN (envs st) e (nat distance)"

definition assignAt :: "nat option \<Rightarrow> int \<Rightarrow> Token \<Rightarrow> val \<Rightarrow> Interpreter \<Rightarrow> panic option \<times> Interpreter" where
  "assignAt e distance name v st =
     (case ancestor e distance st of
        Inl g \<Rightarrow> (Some (GoPanic g), st)
      | Inr None \<Rightarrow> (Some (GoPanic NilDereference), st)
      | Inr (Some a) \<Rightarrow>
          (let st1 = updEnv a ensureInit st in
           case mapGet (envMap (envs st1 ! a)) (Lexeme name) of
             None \<Rightarrow> (Some (RuntimeError (Line name) (UndefinedLocalAssign (Lexeme name))), st1)
           | Some old \<Rightarrow> (None, updEnv a (putEnv (Lexeme name) v) st1)))"

definition getAt :: "nat option \<Rightarrow> int \<Rightarrow> Token \<Rightarrow> Interpreter \<Rightarrow> panic + val" where
  "getAt e distance tok st =
     (case ancestor e distance st of
        Inl g \<Rightarrow> Inl (GoPanic g)
      | Inr None \<Rightarrow> Inl (GoPanic NilDereference)
      | Inr (Some a) \<Rightarrow>
          (case mapGet (envMap (envs st ! a)) (Lexeme tok) of
             None \<Rightarrow> Inl (RuntimeError (Line tok) (UndefinedLocal (Lexeme tok)))
           | Some v \<Rightarrow> Inr v))"


subsection \<open>Classes, instances and bound methods\<close>

definition zeroClass :: loxClass where
  "zeroClass = Class [] None None"

fun findMethod :: "loxClass \<Rightarrow> string \<Rightarrow> func option" where
  "findMethod (Class cname ms super) name =
     (case mapGet ms name of
        Some m \<Rightarrow> Some m
      | None \<Rightarrow> (case super of None \<Rightarrow> None | Some c \<Rightarrow> findMethod c name))"

definition Arity :: "func \<Rightarrow> nat" where
  "Arity f = length (Params (Declaration f))"

definition classArity :: "loxClass \<Rightarrow> nat" where
  "classArity c = (case findMethod c ''init'' of None \<Rightarrow> 0 | Some initializer \<Rightarrow> Arity initializer)"

definition thisToken :: Token where
  "thisToken = \<lparr>Type = LEFT_PAREN, Lexeme = ''this'', TokLiteral = LNil, Line = 0\<rparr>"

definition bindMethodToInstance :: "func \<Rightarrow> nat \<Rightarrow> Interpreter \<Rightarrow> func \<times> Interpreter" where
  "bindMethodToInstance f inst st =
     (let (a, st1) = allocEnv \<lparr>envMap = None, enclosing = Closure f, envInterpreter = False\<rparr> st;
          st2 = updEnv a (putEnv ''this'' (VInstance inst) \<circ> ensureInit) st1
      in (Function (Declaration f) (Some a) (isInitializer f), st2))"

definition instanceGet :: "nat \<Rightarrow> Token \<Rightarrow> Interpreter \<Rightarrow> (panic + val) \<times> Interpreter" where
  "instanceGet inst name st =
     (case mapGet (Fields (insts st ! inst)) (Lexeme name) of
        Some field \<Rightarrow> (Inr field, st)
      | None \<Rightarrow>
          (case findMethod (instClass (insts st ! inst)) (Lexeme name) of
             Some method \<Rightarrow>
               (let (bound, st1) = bindMethodToInstance method inst st in (Inr (VFunction bound), st1))
           | None \<Rightarrow> (Inl (RuntimeError (Line name) (UndefinedProperty (Lexeme name))), st)))"

definition instanceSet :: "nat \<Rightarrow> Token \<Rightarrow> val \<Rightarrow> Interpreter \<Rightarrow> Interpreter" where
  "instanceSet inst name v st =
     st\<lparr>insts := (insts st)[inst := (insts st ! inst)
        \<lparr>Fields := Some (mapPut (Lexeme name) v
            (case Fields (insts st ! inst) of None \<Rightarrow> [] | Some m \<Rightarrow> m))\<rparr>]\<rparr>"

subsection \<open>Operators\<close>

fun isTruthy :: "val \<Rightarrow> bool" where
  "isTruthy VNil = False"
| "isTruthy (VBool b) = b"
| "isTruthy _ = True"

fun isNumber :: "val \<Rightarrow> bool" where
  "isNumber (VNum x) = True"
| "isNumber _ = False"

fun isString :: "val \<Rightarrow> bool" where
  "isString (VStr x) = True"
| "isString _ = False"

definition checkNumberOperands :: "Token \<Rightarrow> val \<Rightarrow> val \<Rightarrow> panic option" where
  "checkNumberOperands opr l r =
     (if \<not> isNumber l \<or> \<not> isNumber r
      then Some (RuntimeError (Line opr) (MustBeNumbers (Lexeme opr) l r)) else None)"

definition checkStringOperands :: "Token \<Rightarrow> val \<Rightarrow> val \<Rightarrow> panic option" where
  "checkStringOperands opr l r =
     (if \<not> isString l \<or> \<not> isString r
      then Some (RuntimeError (Line opr) (MustBeStrings (Lexeme opr) l r)) else None)"

text \<open>
  \<open>numeric\<close> is \<^verbatim>\<open>i.checkNumberOperands(b.Operator, left, right)\<close> followed by the
  operation on \<^verbatim>\<open>left.(float64)\<close> and \<^verbatim>\<open>right.(float64)\<close>.
\<close>

definition numeric :: "Token \<Rightarrow> (float64 \<Rightarrow> float64 \<Rightarrow> val) \<Rightarrow> val \<Rightarrow> val \<Rightarrow> panic + val" where
  "numeric opr f l r =
     (case checkNumberOperands opr l r of
        Some p \<Rightarrow> Inl p
      | None \<Rightarrow>
          (case l of
             VNum a \<Rightarrow> (case r of VNum b \<Rightarrow> Inr (f a b) | _ \<Rightarrow> Inl (GoPanic TypeAssertion))
           | _ \<Rightarrow> Inl (GoPanic TypeAssertion)))"

text \<open>The \<^verbatim>\<open>switch b.Operator.Type\<close> of \<^verbatim>\<open>VisitBinary\<close>, once both operands are evaluated.\<close>

definition binaryOp :: "Interpreter \<Rightarrow> Token \<Rightarrow> val \<Rightarrow> val \<Rightarrow> panic + val" where
  "binaryOp st opr l r =
     (if Type opr = MINUS then numeric opr (\<lambda>a b. VNum (fsub a b)) l r
      else if Type opr = SLASH then numeric opr (\<lambda>a b. VNum (fdiv a b)) l r
      else if Type opr = STAR then numeric opr (\<lambda>a b. VNum (fmul a b)) l r
      else if Type opr = PLUS then
        (case l of
           VNum a \<Rightarrow> numeric opr (\<lambda>a b. VNum (fadd a b)) l r
         | VStr x \<Rightarrow>
             (case checkStringOperands opr l r of
                Some p \<Rightarrow> Inl p
              | None \<Rightarrow> (case r of VStr y \<Rightarrow> Inr (VStr (x @ y)) | _ \<Rightarrow> Inl (GoPanic TypeAssertion)))
         | _ \<Rightarrow> Inl (RuntimeError (Line opr) (PlusOperands l)))
      else if Type opr = GREATER then numeric opr (\<lambda>a b. VBool (flt b a)) l r
      else if Type opr = GREATER_EQUAL then numeric opr (\<lambda>a b. VBool (fle b a)) l r
      else if Type opr = LESS then numeric opr (\<lambda>a b. VBool (flt a b)) l r
      else if Type opr = LESS_EQUAL then numeric opr (\<lambda>a b. VBool (fle a b)) l r
      else if Type opr = BANG_EQUAL then Inr (VBool (\<not> DeepEqual (envs st) (insts st) l r))
      else if Type opr = EQUAL_EQUAL then Inr (VBool (DeepEqual (envs st) (insts st) l r))
      else Inl (GoPanic (Unreachable ''VisitBinary hit intended-unreachable code'')))"

definition unaryOp :: "Token \<Rightarrow> val \<Rightarrow> panic + val" where
  "unaryOp opr right =
     (if Type opr = MINUS then
        (case right of VNum x \<Rightarrow> Inr (VNum (fneg x)) | _ \<Rightarrow> Inl (GoPanic TypeAssertion))
      else if Type opr = BANG then
        (case right of VNil \<Rightarrow> Inr (VBool True) | VBool b \<Rightarrow> Inr (VBool (\<not> b))
         | _ \<Rightarrow> Inr (VBool False))
      else Inl (GoPanic (Unreachable ''Interpreter hit intended-unreachable code in VisitUnary'')))"

subsection \<open>Variables\<close>

text \<open>
  \<^verbatim>\<open>localDistance\<close> is a \<^verbatim>\<open>map[Expr]int\<close>: its keys are expression values, compared
  by content. Hashing a key panics when a dynamic type inside it is not comparable;
  among the nodes that is \<^verbatim>\<open>Call\<close>, which holds a slice.
\<close>

fun hashable :: "expr \<Rightarrow> bool" where
  "hashable (Assign name v) = hashable v"
| "hashable (Binary l opr r) = (hashable l \<and> hashable r)"
| "hashable (Call callee paren args) = False"
| "hashable (Get obj name) = hashable obj"
| "hashable (SetExpr obj name v) = (hashable obj \<and> hashable v)"
| "hashable (Grouping e) = hashable e"
| "hashable (Literal l) = True"
| "hashable (Logical l opr r) = (hashable l \<and> hashable r)"
| "hashable (Super kw m) = True"
| "hashable (This kw) = True"
| "hashable (Unary opr r) = hashable r"
| "hashable (Variable name u) = True"

definition lookupVariable :: "expr \<Rightarrow> Token \<Rightarrow> Interpreter \<Rightarrow> panic + val" where
  "lookupVariable e name st =
     (case mapGet (localDistance st) e of
        Some distance \<Rightarrow> getAt (env st) distance name st
      | None \<Rightarrow> get (globals st) name st)"

definition VisitSuper :: "Token \<Rightarrow> Token \<Rightarrow> Interpreter \<Rightarrow> (panic + val) \<times> Interpreter" where
  "VisitSuper kw m st =
     (let distance = (case mapGet (localDistance st) (Super kw m) of Some d \<Rightarrow> d | None \<Rightarrow> 0) in
      case getAt (env st) distance kw st of
        Inl p \<Rightarrow> (Inl p, st)
      | Inr (VClass superclass) \<Rightarrow>
          (case findMethod superclass (Lexeme m) of
             None \<Rightarrow> (Inl (RuntimeError (Line m) (UndefinedProperty (Lexeme m))), st)
           | Some method \<Rightarrow>
               (case getAt (env st) (distance - 1) thisToken st of
                  Inl p \<Rightarrow> (Inl p, st)
                | Inr (VInstance inst) \<Rightarrow>
                    (let (bound, st1) = bindMethodToInstance method inst st
                     in (Inr (VFunction bound), st1))
                | Inr other \<Rightarrow> (Inl (GoPanic TypeAssertion), st)))
      | Inr other \<Rightarrow> (Inl (GoPanic TypeAssertion), st))"

subsection \<open>Class declarations\<close>

definition buildMethods :: "functionStmt list \<Rightarrow> nat option \<Rightarrow> (string \<times> func) list" where
  "buildMethods ms closure =
     fold (\<lambda>m acc. mapPut (Lexeme (Name m))
                      (Function m closure (Lexeme (Name m) = ''init'')) acc) ms []"

text \<open>\<^verbatim>\<open>VisitClassStmt\<close> after the superclass expression has been evaluated.\<close>

definition declareClass ::
  "Token \<Rightarrow> bool \<Rightarrow> functionStmt list \<Rightarrow> loxClass \<Rightarrow> Interpreter \<Rightarrow> panic option \<times> Interpreter" where
  "declareClass name hasSuper ms superclass st =
     (case envDefine (env st) (Lexeme name) VNil st of
        (Some p, st1) \<Rightarrow> (Some p, st1)
      | (None, st1) \<Rightarrow>
          (if hasSuper then
             (let (a, s1) = allocEnv \<lparr>envMap = None, enclosing = env st1, envInterpreter = False\<rparr> st1;
                  s2 = s1\<lparr>env := Some a\<rparr>;
                  s3 = updEnv a (putEnv ''super'' (VClass superclass) \<circ> ensureInit) s2;
                  cls = Class (Lexeme name) (Some (buildMethods ms (env s3))) (Some superclass);
                  s4 = s3\<lparr>env := enclosing (envs s3 ! a)\<rparr>
              in assign (env s4) name (VClass cls) s4)
           else
             (let cls = Class (Lexeme name) (Some (buildMethods ms (env st1))) (Some superclass)
              in assign (env st1) name (VClass cls) st1)))"

text \<open>
  The loop of \<^verbatim>\<open>Function.Call\<close> that binds the arguments:
  \<^verbatim>\<open>newEnv.define(f.Declaration.Params[i].Lexeme, param)\<close>.
\<close>

fun bindParams :: "Token list \<Rightarrow> val list \<Rightarrow> nat \<Rightarrow> Interpreter \<Rightarrow> panic option \<times> Interpreter" where
  "bindParams ps [] a st = (None, st)"
| "bindParams [] (v # vs) a st = (Some (GoPanic IndexOutOfRange), st)"
| "bindParams (p # ps) (v # vs) a st =
     bindParams ps vs a (updEnv a (putEnv (Lexeme p) v \<circ> ensureInit) st)"

definition readClock :: "Interpreter \<Rightarrow> val \<times> Interpreter" where
  "readClock st =
     (case clock st of [] \<Rightarrow> (VNum (Fin 0), st) | t # ts \<Rightarrow> (VNum t, st\<lparr>clock := ts\<rparr>))"


section \<open>The interpreter\<close>

text \<open>
  Evaluation follows the visitor methods of \<^verbatim>\<open>Interpreter\<close>. Every function returns
  the state it leaves behind, and either a result or the panic that unwinds through it.
  The methods call \<^verbatim>\<open>i.evaluate\<close> and \<^verbatim>\<open>i.execute\<close> on sub-terms and, through a call,
  on the body of any function: they take the two as arguments \<open>ev\<close> and \<open>ex\<close>, and the
  recursion is closed below by a bound on its depth.
\<close>

type_synonym evaluator = "expr \<Rightarrow> Interpreter \<Rightarrow> (panic + val) \<times> Interpreter"
type_synonym executor = "stmt \<Rightarrow> Interpreter \<Rightarrow> panic option \<times> Interpreter"

subsection \<open>Blocks and calls\<close>

text \<open>The loop \<^verbatim>\<open>for _, stmt := range stmts { i.execute(stmt) }\<close>.\<close>

fun executeStmts :: "executor \<Rightarrow> stmt list \<Rightarrow> Interpreter \<Rightarrow> panic option \<times> Interpreter" where
  "executeStmts ex [] st = (None, st)"
| "executeStmts ex (s # ss) st =
     (case ex s st of
        (Some p, st1) \<Rightarrow> (Some p, st1)
      | (None, st1) \<Rightarrow> executeStmts ex ss st1)"

text \<open>The deferred function of \<^verbatim>\<open>executeBlock\<close> puts \<^verbatim>\<open>prevEnv\<close> back on every exit.\<close>

definition executeBlock :: "executor \<Rightarrow> stmt list \<Rightarrow> nat option \<Rightarrow> Interpreter \<Rightarrow> panic option \<times> Interpreter" where
  "executeBlock ex ss newEnv st =
     (let prevEnv = env st;
          (r, st1) = executeStmts ex ss (st\<lparr>env := newEnv\<rparr>)
      in (r, st1\<lparr>env := prevEnv\<rparr>))"

text \<open>
  \<^verbatim>\<open>Function.Call\<close>. Its deferred function recovers a \<^verbatim>\<open>returnable\<close> and makes its
  value the result of the call; any other panic is raised again.
\<close>

definition callFunction :: "executor \<Rightarrow> func \<Rightarrow> val list \<Rightarrow> Interpreter \<Rightarrow> (panic + val) \<times> Interpreter" where
  "callFunction ex f params st =
     (let (newEnv, st1) =
            allocEnv \<lparr>envMap = None, enclosing = Closure f, envInterpreter = True\<rparr> st in
      case bindParams (Params (Declaration f)) params newEnv st1 of
        (Some p, st2) \<Rightarrow> (Inl p, st2)
      | (None, st2) \<Rightarrow>
          (case executeBlock ex (Body (Declaration f)) (Some newEnv) st2 of
             (Some (Returnable v), st3) \<Rightarrow> (Inr v, st3)
           | (Some p, st3) \<Rightarrow> (Inl p, st3)
           | (None, st3) \<Rightarrow>
               (if isInitializer f then (getAt (Closure f) 0 thisToken st3, st3)
                else (Inr VNil, st3))))"

text \<open>\<^verbatim>\<open>Class.Call\<close>.\<close>

definition callClass :: "executor \<Rightarrow> loxClass \<Rightarrow> val list \<Rightarrow> Interpreter \<Rightarrow> (panic + val) \<times> Interpreter" where
  "callClass ex cls args st =
     (let (inst, st1) = allocInstance \<lparr>instClass = cls, Fields = None\<rparr> st in
      case findMethod cls ''init'' of
        None \<Rightarrow> (Inr (VInstance inst), st1)
      | Some initializer \<Rightarrow>
          (let (bound, st2) = bindMethodToInstance initializer inst st1 in
           case callFunction ex bound args st2 of
             (Inl p, st3) \<Rightarrow> (Inl p, st3)
           | (Inr v, st3) \<Rightarrow> (Inr (VInstance inst), st3)))"

text \<open>
  The end of \<^verbatim>\<open>VisitCall\<close>: the callee must be a \<^verbatim>\<open>Callable\<close> (a function, a class or
  the clock), the number of arguments its arity.
\<close>

definition callValue :: "executor \<Rightarrow> val \<Rightarrow> Token \<Rightarrow> val list \<Rightarrow> Interpreter \<Rightarrow> (panic + val) \<times> Interpreter" where
  "callValue ex callee paren args st =
     (case callee of
        VFunction f \<Rightarrow>
          (if length args \<noteq> Arity f
           then (Inl (RuntimeError (Line paren) (ExpectedArgs (Arity f) (length args))), st)
           else callFunction ex f args st)
      | VClass cls \<Rightarrow>
          (if length args \<noteq> classArity cls
           then (Inl (RuntimeError (Line paren) (ExpectedArgs (classArity cls) (length args))), st)
           else callClass ex cls args st)
      | VClockBuiltin \<Rightarrow>
          (if length args \<noteq> 0
           then (Inl (RuntimeError (Line paren) (ExpectedArgs 0 (length args))), st)
           else (let (t, st1) = readClock st in (Inr t, st1)))
      | other \<Rightarrow> (Inl (RuntimeError (Line paren) OnlyCallFunctions), st))"

fun evaluateArgs :: "evaluator \<Rightarrow> expr list \<Rightarrow> Interpreter \<Rightarrow> (panic + val list) \<times> Interpreter" where
  "evaluateArgs ev [] st = (Inr [], st)"
| "evaluateArgs ev (e # es) st =
     (case ev e st of
        (Inl p, st1) \<Rightarrow> (Inl p, st1)
      | (Inr v, st1) \<Rightarrow>
          (case evaluateArgs ev es st1 of
             (Inl p, st2) \<Rightarrow> (Inl p, st2)
           | (Inr vs, st2) \<Rightarrow> (Inr (v # vs), st2)))"

subsection \<open>Expression visitors\<close>

definition VisitAssign :: "evaluator \<Rightarrow> Token \<Rightarrow> expr \<Rightarrow> Interpreter \<Rightarrow> (panic + val) \<times> Interpreter" where
  "VisitAssign ev name valueExpr st =
     (case ev valueExpr st of
        (Inl p, st1) \<Rightarrow> (Inl p, st1)
      | (Inr v, st1) \<Rightarrow>
          (if \<not> hashable (Assign name valueExpr) then (Inl (GoPanic UnhashableKey), st1)
           else
             (case (case mapGet (localDistance st1) (Assign name valueExpr) of
                      Some distance \<Rightarrow> assignAt (env st1) distance name v st1
                    | None \<Rightarrow> assign (globals st1) name v st1) of
                (Some p, st2) \<Rightarrow> (Inl p, st2)
              | (None, st2) \<Rightarrow> (Inr v, st2))))"

definition VisitBinary :: "evaluator \<Rightarrow> expr \<Rightarrow> Token \<Rightarrow> expr \<Rightarrow> Interpreter \<Rightarrow> (panic + val) \<times> Interpreter" where
  "VisitBinary ev left opr right st =
     (case ev left st of
        (Inl p, st1) \<Rightarrow> (Inl p, st1)
      | (Inr l, st1) \<Rightarrow>
          (case ev right st1 of
             (Inl p, st2) \<Rightarrow> (Inl p, st2)
           | (Inr r, st2) \<Rightarrow> (binaryOp st2 opr l r, st2)))"

definition VisitCall :: "evaluator \<Rightarrow> executor \<Rightarrow> expr \<Rightarrow> Token \<Rightarrow> expr list \<Rightarrow> Interpreter \<Rightarrow> (panic + val) \<times> Interpreter" where
  "VisitCall ev ex calleeExpr paren args st =
     (case ev calleeExpr st of
        (Inl p, st1) \<Rightarrow> (Inl p, st1)
      | (Inr callee, st1) \<Rightarrow>
          (case evaluateArgs ev args st1 of
             (Inl p, st2) \<Rightarrow> (Inl p, st2)
           | (Inr vs, st2) \<Rightarrow> callValue ex callee paren vs st2))"

definition VisitGet :: "evaluator \<Rightarrow> expr \<Rightarrow> Token \<Rightarrow> Interpreter \<Rightarrow> (panic + val) \<times> Interpreter" where
  "VisitGet ev object name st =
     (case ev object st of
        (Inl p, st1) \<Rightarrow> (Inl p, st1)
      | (Inr obj, st1) \<Rightarrow>
          (case obj of
             VInstance inst \<Rightarrow> instanceGet inst name st1
           | other \<Rightarrow> (Inl (RuntimeError (Line name) OnlyInstancesProperties), st1)))"

definition VisitSet :: "evaluator \<Rightarrow> expr \<Rightarrow> Token \<Rightarrow> expr \<Rightarrow> Interpreter \<Rightarrow> (panic + val) \<times> Interpreter" where
  "VisitSet ev object name valueExpr st =
     (case ev object st of
        (Inl p, st1) \<Rightarrow> (Inl p, st1)
      | (Inr obj, st1) \<Rightarrow>
          (case obj of
             VInstance inst \<Rightarrow>
               (case ev valueExpr st1 of
                  (Inl p, st2) \<Rightarrow> (Inl p, st2)
                | (Inr v, st2) \<Rightarrow> (Inr v, instanceSet inst name v st2))
           | other \<Rightarrow> (Inl (RuntimeError (Line name) OnlyInstancesFields), st1)))"

definition VisitLogical :: "evaluator \<Rightarrow> expr \<Rightarrow> Token \<Rightarrow> expr \<Rightarrow> Interpreter \<Rightarrow> (panic + val) \<times> Interpreter" where
  "VisitLogical ev left opr right st =
     (case ev left st of
        (Inl p, st1) \<Rightarrow> (Inl p, st1)
      | (Inr l, st1) \<Rightarrow>
          (if Type opr = OR then (if isTruthy l then (Inr l, st1) else ev right st1)
           else (if \<not> isTruthy l then (Inr l, st1) else ev right st1)))"

definition VisityUnary :: "evaluator \<Rightarrow> Token \<Rightarrow> expr \<Rightarrow> Interpreter \<Rightarrow> (panic + val) \<times> Interpreter" where
  "VisityUnary ev opr right st =
     (case ev right st of
        (Inl p, st1) \<Rightarrow> (Inl p, st1)
      | (Inr r, st1) \<Rightarrow> (unaryOp opr r, st1))"

text \<open>\<^verbatim>\<open>expr.Accept(i)\<close>: the visitor method of the node.\<close>

definition acceptExpr :: "evaluator \<Rightarrow> executor \<Rightarrow> evaluator" where
  "acceptExpr ev ex e st =
     (case e of
        Assign name v \<Rightarrow> VisitAssign ev name v st
      | Binary left opr right \<Rightarrow> VisitBinary ev left opr right st
      | Call callee paren args \<Rightarrow> VisitCall ev ex callee paren args st
      | Get object name \<Rightarrow> VisitGet ev object name st
      | SetExpr object name v \<Rightarrow> VisitSet ev object name v st
      | Grouping expression \<Rightarrow> ev expression st
      | Literal l \<Rightarrow> (Inr (litVal l), st)
      | Logical left opr right \<Rightarrow> VisitLogical ev left opr right st
      | Super kw m \<Rightarrow> VisitSuper kw m st
      | This kw \<Rightarrow> (lookupVariable (This kw) kw st, st)
      | Unary opr right \<Rightarrow> VisityUnary ev opr right st
      | Variable name u \<Rightarrow> (lookupVariable (Variable name u) name st, st))"

subsection \<open>Statement visitors\<close>

definition VisitBlockStmt :: "executor \<Rightarrow> stmt list \<Rightarrow> Interpreter \<Rightarrow> panic option \<times> Interpreter" where
  "VisitBlockStmt ex statements st =
     (let (newEnv, st1) =
            allocEnv \<lparr>envMap = None, enclosing = env st, envInterpreter = True\<rparr> st
      in executeBlock ex statements (Some newEnv) st1)"

definition VisitClassStmt ::
  "evaluator \<Rightarrow> Token \<Rightarrow> (Token \<times> int) option \<Rightarrow> functionStmt list \<Rightarrow> Interpreter \<Rightarrow> panic option \<times> Interpreter" where
  "VisitClassStmt ev name superclass ms st =
     (case superclass of
        None \<Rightarrow> declareClass name False ms zeroClass st
      | Some (sname, u) \<Rightarrow>
          (case ev (Variable sname u) st of
             (Inl p, st1) \<Rightarrow> (Some p, st1)
           | (Inr superclassMaybe, st1) \<Rightarrow>
               (case superclassMaybe of
                  VClass c \<Rightarrow> declareClass name True ms c st1
                | other \<Rightarrow> (Some (RuntimeError (Line name) SuperclassMustBeClass), st1))))"

definition VisitExpressionStmt :: "evaluator \<Rightarrow> expr \<Rightarrow> Interpreter \<Rightarrow> panic option \<times> Interpreter" where
  "VisitExpressionStmt ev e st =
     (case ev e st of (Inl p, st1) \<Rightarrow> (Some p, st1) | (Inr v, st1) \<Rightarrow> (None, st1))"

definition VisitFunctionStmt :: "functionStmt \<Rightarrow> Interpreter \<Rightarrow> panic option \<times> Interpreter" where
  "VisitFunctionStmt funStmt st =
     envDefine (env st) (Lexeme (Name funStmt)) (VFunction (Function funStmt (env st) False)) st"

definition VisitIfStmt :: "evaluator \<Rightarrow> executor \<Rightarrow> expr \<Rightarrow> stmt \<Rightarrow> stmt option \<Rightarrow> Interpreter \<Rightarrow> panic option \<times> Interpreter" where
  "VisitIfStmt ev ex condition thenBranch elseBranch st =
     (case ev condition st of
        (Inl p, st1) \<Rightarrow> (Some p, st1)
      | (Inr c, st1) \<Rightarrow>
          (if isTruthy c then ex thenBranch st1
           else (case elseBranch of None \<Rightarrow> (None, st1) | Some b \<Rightarrow> ex b st1)))"

definition VisitPrintStmt :: "evaluator \<Rightarrow> expr \<Rightarrow> Interpreter \<Rightarrow> panic option \<times> Interpreter" where
  "VisitPrintStmt ev e st =
     (case ev e st of
        (Inl p, st1) \<Rightarrow> (Some p, st1)
      | (Inr v, st1) \<Rightarrow> (None, st1\<lparr>Stdout := Stdout st1 @ [v]\<rparr>))"

definition VisitReturnStmt :: "evaluator \<Rightarrow> expr option \<Rightarrow> Interpreter \<Rightarrow> panic option \<times> Interpreter" where
  "VisitReturnStmt ev valueExpr st =
     (case valueExpr of
        None \<Rightarrow> (Some (Returnable VNil), st)
      | Some e \<Rightarrow>
          (case ev e st of
             (Inl p, st1) \<Rightarrow> (Some p, st1)
           | (Inr v, st1) \<Rightarrow> (Some (Returnable v), st1)))"

definition VisitVarStmt :: "evaluator \<Rightarrow> Token \<Rightarrow> expr option \<Rightarrow> Interpreter \<Rightarrow> panic option \<times> Interpreter" where
  "VisitVarStmt ev name initializer st =
     (case initializer of
        None \<Rightarrow> envDefine (env st) (Lexeme name) VNil st
      | Some e \<Rightarrow>
          (case ev e st of
             (Inl p, st1) \<Rightarrow> (Some p, st1)
           | (Inr v, st1) \<Rightarrow> envDefine (env st1) (Lexeme name) v st1))"

text \<open>
  \<^verbatim>\<open>for i._isTruthy(i.evaluate(whileStmt.Condition)) { i.execute(whileStmt.Body) }\<close>:
  after the body, the loop goes on as the same statement executed again.
\<close>

definition VisitWhileStmt :: "evaluator \<Rightarrow> executor \<Rightarrow> expr \<Rightarrow> stmt \<Rightarrow> Interpreter \<Rightarrow> panic option \<times> Interpreter" where
  "VisitWhileStmt ev ex condition body st =
     (case ev condition st of
        (Inl p, st1) \<Rightarrow> (Some p, st1)
      | (Inr c, st1) \<Rightarrow>
          (if isTruthy c then
             (case ex body st1 of
                (Some p, st2) \<Rightarrow> (Some p, st2)
              | (None, st2) \<Rightarrow> ex (WhileStmt condition body) st2)
           else (None, st1)))"

definition acceptStmt :: "evaluator \<Rightarrow> executor \<Rightarrow> executor" where
  "acceptStmt ev ex s st =
     (case s of
        ExprStmt e \<Rightarrow> VisitExpressionStmt ev e st
      | ClassStmt name superclass ms \<Rightarrow> VisitClassStmt ev name superclass ms st
      | FunctionS f \<Rightarrow> VisitFunctionStmt f st
      | IfStmt condition thenBranch elseBranch \<Rightarrow> VisitIfStmt ev ex condition thenBranch elseBranch st
      | PrintStmt e \<Rightarrow> VisitPrintStmt ev e st
      | ReturnStmt kw v \<Rightarrow> VisitReturnStmt ev v st
      | WhileStmt condition body \<Rightarrow> VisitWhileStmt ev ex condition body st
      | BlockStmt statements \<Rightarrow> VisitBlockStmt ex statements st
      | VariableStmt name initializer \<Rightarrow> VisitVarStmt ev name initializer st)"

subsection \<open>Closing the recursion\<close>

text \<open>
  \<open>interp n\<close> is the pair of \<^verbatim>\<open>i.evaluate\<close> and \<^verbatim>\<open>i.execute\<close> for runs whose nesting of
  calls to the two stays below \<open>n\<close>; a deeper run ends as \<open>OutOfFuel\<close>.
\<close>

primrec interp :: "nat \<Rightarrow> evaluator \<times> executor" where
  "interp 0 = ((\<lambda>e st. (Inl OutOfFuel, st)), (\<lambda>s st. (Some OutOfFuel, st)))"
| "interp (Suc n) =
     (acceptExpr (fst (interp n)) (snd (interp n)), acceptStmt (fst (interp n)) (snd (interp n)))"

definition evaluate :: "nat \<Rightarrow> evaluator" where
  "evaluate n = fst (interp n)"

definition execute :: "nat \<Rightarrow> executor" where
  "execute n = snd (interp n)"

text \<open>
  An evaluator or executor keeps the current environment when \<^verbatim>\<open>i.env\<close> is the same after
  each of its runs as before, whatever the run returns or panics with.
\<close>

definition keepsEnvV :: "evaluator \<Rightarrow> bool" where
  "keepsEnvV ev = (\<forall>e st. env (snd (ev e st)) = env st)"

definition keepsEnvX :: "executor \<Rightarrow> bool" where
  "keepsEnvX ex = (\<forall>s st. env (snd (ex s st)) = env st)"

text \<open>
  \<^verbatim>\<open>Interpret\<close>. Its deferred function recovers every panic with
  \<^verbatim>\<open>returnErr = r.(runtimeError).error()\<close>: a runtime error becomes the returned error;
  on any other panic value the type assertion fails, and that panic leaves \<^verbatim>\<open>Interpret\<close>.
  The result is the returned error (\<open>None\<close> is nil) or the panic that escapes.
\<close>

definition init :: "Interpreter \<Rightarrow> Interpreter" where
  "init st =
     (let (a, st1) = allocEnv \<lparr>envMap = None, enclosing = None, envInterpreter = True\<rparr> st;
          st2 = st1\<lparr>env := Some a, globals := Some a\<rparr>;
          st3 = updEnv a (putEnv ''clock'' VClockBuiltin \<circ> ensureInit) st2
      in st3\<lparr>localDistance := Some [], initialized := True\<rparr>)"

definition Interpret :: "nat \<Rightarrow> stmt list \<Rightarrow> Interpreter \<Rightarrow> (panic + (int \<times> rtmsg) option) \<times> Interpreter" where
  "Interpret n stmts st =
     (let st0 = (if env st = None then init st else st);
          (r, st1) = executeStmts (execute n) stmts st0
      in case r of
           None \<Rightarrow> (Inr None, st1)
         | Some (RuntimeError line msg) \<Rightarrow> (Inr (Some (line, msg)), st1)
         | Some OutOfFuel \<Rightarrow> (Inl OutOfFuel, st1)
         | Some other \<Rightarrow> (Inl (GoPanic TypeAssertion), st1))"


section \<open>The resolver\<close>

text \<open>
  \<^verbatim>\<open>Interpreter.Resolve\<close>: the resolver's only access to the interpreter. The key of
  the table is the expression value itself.
\<close>

definition interpreterResolve :: "expr \<Rightarrow> int \<Rightarrow> Interpreter \<Rightarrow> gopanic option \<times> Interpreter" where
  "interpreterResolve e distance st =
     (let st1 = (if \<not> initialized st then init st else st) in
      if \<not> hashable e then (Some UnhashableKey, st1)
      else (None, st1\<lparr>localDistance :=
              Some (mapPut e distance (case localDistance st1 of None \<Rightarrow> [] | Some m \<Rightarrow> m))\<rparr>))"

record scope =
  declared :: "(string, int) gomap"
  defined :: "(string, int) gomap"
  referenced :: "(string, bool) gomap"

datatype FunctionType = NONEFUNC | FUNCTION | INITIALIZER | METHOD

datatype ClassType = NONECLASS | SUBCLASSCLASS | CLASSCLASS

datatype resmsg =
    AlreadyVariable string
  | UnusedLocal string
  | ReadInOwnInitializer
  | ReturnFromTopLevel
  | ReturnFromInitializer
  | InheritFromItself
  | SuperOutsideClass
  | SuperNoSuperclass
  | ThisOutsideClass

fun resText :: "(string \<Rightarrow> string) \<Rightarrow> resmsg \<Rightarrow> string" where
  "resText q (AlreadyVariable n) = ''already a variable with name '' @ q n @ '' in this scope''"
| "resText q (UnusedLocal n) = ''unused local variable '' @ q n"
| "resText q ReadInOwnInitializer = ''Can't read local variable in its own initializer''"
| "resText q ReturnFromTopLevel = ''can't return a value from top-level code.''"
| "resText q ReturnFromInitializer = ''can't return a value from an initializer''"
| "resText q InheritFromItself = ''A class can't inherit from itself.''"
| "resText q SuperOutsideClass = ''Can't use 'super' outside of a class.''"
| "resText q SuperNoSuperclass = ''Can't use 'super' in a class with no superclass.''"
| "resText q ThisOutsideClass = ''Cannot use 'this' outside of a class method.''"

datatype rpanic = ResolutionError int resmsg | ResolverPanic gopanic

text \<open>
  The fields of the Go struct, and one more. \<^verbatim>\<open>endScope\<close> ranges over the keys of a map, in
  an order Go leaves open, and raises at the first key it meets that is unused: which of
  the unused keys that is, is a choice of the run. The raise ends \<^verbatim>\<open>Resolve\<close>, so one
  choice is enough for one \<^verbatim>\<open>Resolve\<close>; \<^verbatim>\<open>rangeFirst\<close> holds it, as the position of the
  reported key among the unused ones (modulo their number).
\<close>

record Resolver =
  scopes :: "scope list"
  interpreter :: Interpreter
  currentFunctionType :: FunctionType
  currentClassType :: ClassType
  rangeFirst :: nat

text \<open>\<^verbatim>\<open>&Resolver{interpreter: i}\<close>, in a run whose choice is \<^verbatim>\<open>pick\<close>.\<close>

definition NewResolver :: "nat \<Rightarrow> Interpreter \<Rightarrow> Resolver" where
  "NewResolver pick i =
     \<lparr>scopes = [], interpreter = i, currentFunctionType = NONEFUNC, currentClassType = NONECLASS,
      rangeFirst = pick\<rparr>"

type_synonym resolving = "Resolver \<Rightarrow> rpanic option \<times> Resolver"

definition andThen :: "resolving \<Rightarrow> resolving \<Rightarrow> resolving" where
  "andThen f g r = (case f r of (Some p, r1) \<Rightarrow> (Some p, r1) | (None, r1) \<Rightarrow> g r1)"

definition proceed :: resolving where
  "proceed r = (None, r)"

definition inOrder :: "resolving list \<Rightarrow> resolving" where
  "inOrder fs = foldr andThen fs proceed"

subsection \<open>scope\<close>

definition containsKey :: "scope \<Rightarrow> string \<Rightarrow> bool" where
  "containsKey s key = (mapGet (declared s) key \<noteq> None)"

definition scopeEnsureInit :: "scope \<Rightarrow> scope" where
  "scopeEnsureInit s =
     s\<lparr>declared := Some (case declared s of None \<Rightarrow> [] | Some m \<Rightarrow> m),
       defined := Some (case defined s of None \<Rightarrow> [] | Some m \<Rightarrow> m),
       referenced := Some (case referenced s of None \<Rightarrow> [] | Some m \<Rightarrow> m)\<rparr>"

definition scopeDeclare :: "string \<Rightarrow> int \<Rightarrow> scope \<Rightarrow> scope" where
  "scopeDeclare key line s =
     (let s1 = scopeEnsureInit s
      in s1\<lparr>declared := Some (mapPut key line (case declared s1 of None \<Rightarrow> [] | Some m \<Rightarrow> m))\<rparr>)"

text \<open>\<^verbatim>\<open>define\<close> and \<^verbatim>\<open>reference\<close> write to their maps without \<^verbatim>\<open>ensureInit\<close>.\<close>

definition scopeDefine :: "string \<Rightarrow> int \<Rightarrow> scope \<Rightarrow> gopanic + scope" where
  "scopeDefine key line s =
     (case defined s of
        None \<Rightarrow> Inl NilMapAssignment
      | Some m \<Rightarrow> Inr (s\<lparr>defined := Some (mapPut key line m)\<rparr>))"

definition scopeReference :: "string \<Rightarrow> scope \<Rightarrow> gopanic + scope" where
  "scopeReference key s =
     (case referenced s of
        None \<Rightarrow> Inl NilMapAssignment
      | Some m \<Rightarrow> Inr (s\<lparr>referenced := Some (mapPut key True m)\<rparr>))"

definition isReferenced :: "scope \<Rightarrow> string \<Rightarrow> bool" where
  "isReferenced s key = (mapGet (referenced s) key = Some True)"

text \<open>
  \<^verbatim>\<open>keys\<close> collects the keys of the map \<^verbatim>\<open>declared\<close>, in an order Go leaves open. The list
  below stands for the keys as a collection: \<^verbatim>\<open>endScope\<close>, its one caller, does not rely on
  its order.
\<close>

definition keys :: "scope \<Rightarrow> string list" where
  "keys s = (case declared s of None \<Rightarrow> [] | Some m \<Rightarrow> map fst m)"

text \<open>The keys at which the loop of \<^verbatim>\<open>endScope\<close> raises when it meets them.\<close>

definition unusedKeys :: "scope \<Rightarrow> string list" where
  "unusedKeys s =
     filter (\<lambda>key. \<not> isReferenced s key \<and> \<not> (key = ''this'' \<or> key = ''super'')) (keys s)"


subsection \<open>Scopes of the resolver\<close>

definition beginScope :: resolving where
  "beginScope r = (None, r\<lparr>scopes := scopes r @ [\<lparr>declared = None, defined = None, referenced = None\<rparr>]\<rparr>)"

definition peekScope :: "Resolver \<Rightarrow> scope option" where
  "peekScope r = (if length (scopes r) = 0 then None else Some (last (scopes r)))"

definition setPeek :: "scope \<Rightarrow> Resolver \<Rightarrow> Resolver" where
  "setPeek s r = r\<lparr>scopes := butlast (scopes r) @ [s]\<rparr>"

definition endScope :: resolving where
  "endScope r =
     (case peekScope r of
        None \<Rightarrow> (Some (ResolverPanic NilDereference), r)
      | Some s \<Rightarrow>
          (case unusedKeys s of
             [] \<Rightarrow> (None, r\<lparr>scopes := butlast (scopes r)\<rparr>)
           | k # ks \<Rightarrow>
               (let key = (k # ks) ! (rangeFirst r mod length (k # ks))
                in (Some (ResolutionError (case mapGet (declared s) key of None \<Rightarrow> 0 | Some line \<Rightarrow> line)
                            (UnusedLocal key)), r))))"

definition declareName :: "Token \<Rightarrow> resolving" where
  "declareName name r =
     (case peekScope r of
        None \<Rightarrow> (None, r)
      | Some s \<Rightarrow>
          (if containsKey s (Lexeme name)
           then (Some (ResolutionError (Line name) (AlreadyVariable (Lexeme name))), r)
           else (None, setPeek (scopeDeclare (Lexeme name) (Line name) s) r)))"

definition defineName :: "Token \<Rightarrow> resolving" where
  "defineName name r =
     (case peekScope r of
        None \<Rightarrow> (None, r)
      | Some s \<Rightarrow>
          (case scopeDefine (Lexeme name) (Line name) s of
             Inl g \<Rightarrow> (Some (ResolverPanic g), r)
           | Inr s1 \<Rightarrow> (None, setPeek s1 r)))"

text \<open>
  \<^verbatim>\<open>peekScope().declare(key, line)\<close> followed by \<^verbatim>\<open>peekScope().define(key, line)\<close>, as
  the class visitor does for \<^verbatim>\<open>super\<close> and \<^verbatim>\<open>this\<close>.
\<close>

definition declareDefine :: "string \<Rightarrow> int \<Rightarrow> resolving" where
  "declareDefine key line r =
     (case peekScope r of
        None \<Rightarrow> (Some (ResolverPanic NilDereference), r)
      | Some s \<Rightarrow>
          (case scopeDefine key line (scopeDeclare key line s) of
             Inl g \<Rightarrow> (Some (ResolverPanic g), setPeek (scopeDeclare key line s) r)
           | Inr s1 \<Rightarrow> (None, setPeek s1 r)))"

text \<open>
  \<^verbatim>\<open>resolveLocal\<close>: \<open>idx\<close> runs from the innermost scope outwards, \<open>depth\<close> is
  \<^verbatim>\<open>len(r.scopes) - idx - 1\<close>. The argument of \<open>resolveLocalFrom\<close> is \<open>idx + 1\<close>.
\<close>

fun resolveLocalFrom :: "nat \<Rightarrow> expr \<Rightarrow> Token \<Rightarrow> resolving" where
  "resolveLocalFrom 0 e name r = (None, r)"
| "resolveLocalFrom (Suc idx) e name r =
     (if containsKey (scopes r ! idx) (Lexeme name) then
        (case interpreterResolve e (int (length (scopes r) - idx - 1)) (interpreter r) of
           (Some g, i1) \<Rightarrow> (Some (ResolverPanic g), r\<lparr>interpreter := i1\<rparr>)
         | (None, i1) \<Rightarrow>
             (case scopeReference (Lexeme name) (scopes r ! idx) of
                Inl g \<Rightarrow> (Some (ResolverPanic g), r\<lparr>interpreter := i1\<rparr>)
              | Inr s1 \<Rightarrow> (None, r\<lparr>interpreter := i1, scopes := (scopes r)[idx := s1]\<rparr>)))
      else resolveLocalFrom idx e name r)"

definition resolveLocal :: "expr \<Rightarrow> Token \<Rightarrow> resolving" where
  "resolveLocal e name r = resolveLocalFrom (length (scopes r)) e name r"

definition raise :: "int \<Rightarrow> resmsg \<Rightarrow> resolving" where
  "raise line msg r = (Some (ResolutionError line msg), r)"

subsection \<open>Expression visitors of the resolver\<close>

definition resolveVariable :: "Token \<Rightarrow> int \<Rightarrow> resolving" where
  "resolveVariable name u r =
     (case peekScope r of
        None \<Rightarrow> resolveLocal (Variable name u) name r
      | Some innerScope \<Rightarrow>
          (if mapGet (declared innerScope) (Lexeme name) \<noteq> None
              \<and> mapGet (defined innerScope) (Lexeme name) = None
           then raise (Line name) ReadInOwnInitializer r
           else resolveLocal (Variable name u) name r))"

definition resolveSuper :: "Token \<Rightarrow> Token \<Rightarrow> resolving" where
  "resolveSuper kw m r =
     (if currentClassType r = NONECLASS then raise (Line kw) SuperOutsideClass r
      else if currentClassType r \<noteq> SUBCLASSCLASS then raise (Line kw) SuperNoSuperclass r
      else resolveLocal (Super kw m) kw r)"

definition resolveThis :: "Token \<Rightarrow> resolving" where
  "resolveThis kw r =
     (if currentClassType r = NONECLASS then raise (Line kw) ThisOutsideClass r
      else resolveLocal (This kw) kw r)"

primrec resolveExpr :: "expr \<Rightarrow> resolving" where
  "resolveExpr (Assign name v) = andThen (resolveExpr v) (resolveLocal (Assign name v) name)"
| "resolveExpr (Binary left opr right) = andThen (resolveExpr left) (resolveExpr right)"
| "resolveExpr (Call callee paren args) =
     andThen (resolveExpr callee) (inOrder (map resolveExpr args))"
| "resolveExpr (Get object name) = resolveExpr object"
| "resolveExpr (SetExpr object name v) = andThen (resolveExpr v) (resolveExpr object)"
| "resolveExpr (Grouping expression) = resolveExpr expression"
| "resolveExpr (Literal l) = proceed"
| "resolveExpr (Logical left opr right) = andThen (resolveExpr left) (resolveExpr right)"
| "resolveExpr (Super kw m) = resolveSuper kw m"
| "resolveExpr (This kw) = resolveThis kw"
| "resolveExpr (Unary opr right) = resolveExpr right"
| "resolveExpr (Variable name u) = resolveVariable name u"

subsection \<open>Statement visitors of the resolver\<close>

definition withFunctionType :: "FunctionType \<Rightarrow> resolving \<Rightarrow> resolving" where
  "withFunctionType typ body r =
     (let enclosingFunctionType = currentFunctionType r in
      case body (r\<lparr>currentFunctionType := typ\<rparr>) of
        (Some p, r1) \<Rightarrow> (Some p, r1)
      | (None, r1) \<Rightarrow> (None, r1\<lparr>currentFunctionType := enclosingFunctionType\<rparr>))"

definition methodType :: "functionStmt \<Rightarrow> FunctionType" where
  "methodType m = (if Lexeme (Name m) = ''init'' then INITIALIZER else METHOD)"

definition resolveReturn :: "Token \<Rightarrow> resolving \<Rightarrow> resolving" where
  "resolveReturn kw resolveValue r =
     (if currentFunctionType r = NONEFUNC then raise (Line kw) ReturnFromTopLevel r
      else if currentFunctionType r = INITIALIZER then raise (Line kw) ReturnFromInitializer r
      else resolveValue r)"

definition resolveClass ::
  "Token \<Rightarrow> (Token \<times> int) option \<Rightarrow> resolving \<Rightarrow> resolving" where
  "resolveClass name superclass resolveMethods r =
     (let enclosingClassType = currentClassType r in
      case
        andThen (declareName name) (andThen (defineName name)
          (andThen
            (case superclass of
               None \<Rightarrow> proceed
             | Some (sname, u) \<Rightarrow>
                 (if Lexeme name = Lexeme sname then raise (Line name) InheritFromItself
                  else andThen (\<lambda>r1. (None, r1\<lparr>currentClassType := SUBCLASSCLASS\<rparr>))
                         (andThen (resolveVariable sname u)
                           (andThen beginScope (declareDefine ''super'' (Line name))))))
            (andThen beginScope (andThen (declareDefine ''this'' (Line name))
              (andThen resolveMethods
                (andThen endScope (if superclass \<noteq> None then endScope else proceed)))))))
          (r\<lparr>currentClassType := CLASSCLASS\<rparr>) of
        (Some p, r1) \<Rightarrow> (Some p, r1)
      | (None, r1) \<Rightarrow> (None, r1\<lparr>currentClassType := enclosingClassType\<rparr>))"

primrec resolveStmt :: "stmt \<Rightarrow> resolving"
  and resolveFunction :: "functionStmt \<Rightarrow> FunctionType \<Rightarrow> resolving"
where
  "resolveStmt (ExprStmt e) = resolveExpr e"
| "resolveStmt (ClassStmt name superclass ms) =
     resolveClass name superclass
       (inOrder (map (\<lambda>m. resolveFunction m (methodType m)) ms))"
| "resolveStmt (FunctionS f) =
     andThen (declareName (Name f)) (andThen (defineName (Name f)) (resolveFunction f FUNCTION))"
| "resolveStmt (IfStmt condition thenBranch elseBranch) =
     andThen (resolveExpr condition) (andThen (resolveStmt thenBranch)
       (case map_option resolveStmt elseBranch of None \<Rightarrow> proceed | Some g \<Rightarrow> g))"
| "resolveStmt (PrintStmt e) = resolveExpr e"
| "resolveStmt (ReturnStmt kw v) =
     (case v of None \<Rightarrow> proceed | Some e \<Rightarrow> resolveReturn kw (resolveExpr e))"
| "resolveStmt (WhileStmt condition body) = andThen (resolveExpr condition) (resolveStmt body)"
| "resolveStmt (BlockStmt statements) =
     andThen beginScope (andThen (inOrder (map resolveStmt statements)) endScope)"
| "resolveStmt (VariableStmt name initializer) =
     andThen (declareName name)
       (andThen (case initializer of None \<Rightarrow> proceed | Some e \<Rightarrow> resolveExpr e) (defineName name))"
| "resolveFunction (FunctionStmt fname params body) =
     (\<lambda>typ. withFunctionType typ
        (andThen beginScope
          (andThen (inOrder (map (\<lambda>param. andThen (declareName param) (defineName param)) params))
            (andThen (inOrder (map resolveStmt body)) endScope))))"

text \<open>
  \<^verbatim>\<open>Resolver.Resolve\<close>: a \<^verbatim>\<open>resolutionError\<close> is recovered and returned; any other
  panic fails the type assertion of the deferred function and leaves \<^verbatim>\<open>Resolve\<close>.
\<close>

definition Resolve :: "stmt list \<Rightarrow> Resolver \<Rightarrow> (gopanic + (int \<times> resmsg) option) \<times> Resolver" where
  "Resolve stmts r =
     (case inOrder (map resolveStmt stmts) r of
        (None, r1) \<Rightarrow> (Inr None, r1)
      | (Some (ResolutionError line msg), r1) \<Rightarrow> (Inr (Some (line, msg)), r1)
      | (Some (ResolverPanic g), r1) \<Rightarrow> (Inl TypeAssertion, r1))"


section \<open>The scanner\<close>

text \<open>
  The source is a sequence of runes. A \<open>char\<close> stands for the rune of the same code
  point, so the model covers sources over the code points below 256; \<open>IsDigit\<close> and
  \<open>IsLetter\<close> are \<^verbatim>\<open>unicode.IsDigit\<close> and \<^verbatim>\<open>unicode.IsLetter\<close> on that range.
\<close>

definition IsDigit :: "char \<Rightarrow> bool" where
  "IsDigit c = (let n = (of_char c :: nat) in 48 \<le> n \<and> n \<le> 57)"

definition IsLetter :: "char \<Rightarrow> bool" where
  "IsLetter c =
     (let n = (of_char c :: nat) in
        (65 \<le> n \<and> n \<le> 90) \<or> (97 \<le> n \<and> n \<le> 122) \<or> n = 170 \<or> n = 181 \<or> n = 186
        \<or> (192 \<le> n \<and> n \<le> 214) \<or> (216 \<le> n \<and> n \<le> 246) \<or> 248 \<le> n)"

definition identifierToTokenType :: "string \<Rightarrow> TokenType option" where
  "identifierToTokenType = map_of
     [(''and'', AND), (''class'', CLASS), (''else'', ELSE), (''false'', FALSE), (''fun'', FUN),
      (''for'', FOR), (''if'', IF), (''nil'', NIL), (''or'', OR), (''print'', PRINT),
      (''return'', RETURN), (''super'', SUPER), (''this'', THIS), (''true'', TRUE),
      (''var'', VAR), (''while'', WHILE)]"

record Scanner =
  srcRunes :: "char list"
  start :: nat
  current :: nat
  line :: int
  Tokens :: "Token list"

text \<open>The scanner panics with a string; the model keeps the arguments of its format.\<close>

datatype scanPanic =
    UnexpectedCharacter char
  | UnterminatedString int
  | ErrorParsingFloat string int

definition isAtEnd :: "Scanner \<Rightarrow> bool" where
  "isAtEnd s = (current s \<ge> length (srcRunes s))"

definition advance :: "Scanner \<Rightarrow> char \<times> Scanner" where
  "advance s = (srcRunes s ! current s, s\<lparr>current := current s + 1\<rparr>)"

definition matchNext :: "char \<Rightarrow> Scanner \<Rightarrow> bool \<times> Scanner" where
  "matchNext expected s =
     (if isAtEnd s then (False, s)
      else if srcRunes s ! current s \<noteq> expected then (False, s)
      else (True, s\<lparr>current := current s + 1\<rparr>))"

definition peek :: "Scanner \<Rightarrow> char" where
  "peek s = (if isAtEnd s then CHR 0x00 else srcRunes s ! current s)"

definition peekNext :: "Scanner \<Rightarrow> char" where
  "peekNext s = (if current s + 1 \<ge> length (srcRunes s) then CHR 0x00 else srcRunes s ! (current s + 1))"

definition slice :: "'a list \<Rightarrow> nat \<Rightarrow> nat \<Rightarrow> 'a list" where
  "slice xs i j = take (j - i) (drop i xs)"

definition addToken :: "TokenType \<Rightarrow> lit \<Rightarrow> Scanner \<Rightarrow> Scanner" where
  "addToken typ literal s =
     s\<lparr>Tokens := Tokens s @
        [\<lparr>Type = typ, Lexeme = slice (srcRunes s) (start s) (current s),
          TokLiteral = literal, Line = line s\<rparr>]\<rparr>"

function skipComment :: "Scanner \<Rightarrow> Scanner" where
  "skipComment s =
     (if peek s \<noteq> CHR 0x0A \<and> \<not> isAtEnd s then skipComment (snd (advance s)) else s)"
  by pat_completeness auto
termination
  by (relation "measure (\<lambda>s. length (srcRunes s) - current s)") (auto simp: isAtEnd_def advance_def)

function stringBody :: "Scanner \<Rightarrow> Scanner" where
  "stringBody s =
     (if peek s \<noteq> CHR 0x22 \<and> \<not> isAtEnd s
      then stringBody (snd (advance (if peek s = CHR 0x0A then s\<lparr>line := line s + 1\<rparr> else s)))
      else s)"
  by pat_completeness auto
termination
  by (relation "measure (\<lambda>s. length (srcRunes s) - current s)") (auto simp: isAtEnd_def advance_def)

definition scanString :: "Scanner \<Rightarrow> scanPanic + Scanner" where
  "scanString s0 =
     (let s = stringBody s0 in
      if isAtEnd s then Inl (UnterminatedString (line s))
      else (let s1 = snd (advance s)
            in Inr (addToken STRING (LStr (slice (srcRunes s1) (start s1 + 1) (current s1 - 1))) s1)))"

function digits :: "Scanner \<Rightarrow> Scanner" where
  "digits s = (if IsDigit (peek s) then digits (snd (advance s)) else s)"
  by pat_completeness auto
termination
  by (relation "measure (\<lambda>s. length (srcRunes s) - current s)")
     (auto simp: isAtEnd_def advance_def peek_def IsDigit_def split: if_splits)

text \<open>
  \<^verbatim>\<open>strconv.ParseFloat(str, 64)\<close> on a run of digits with at most one point inside: the
  decimal value, rounded to float64; a value that rounds to infinity is an error.
\<close>

definition digitValue :: "char \<Rightarrow> nat" where
  "digitValue c = of_char c - 48"

definition decimal :: "string \<Rightarrow> nat" where
  "decimal ds = foldl (\<lambda>acc c. 10 * acc + digitValue c) 0 ds"

definition ParseFloat :: "string \<Rightarrow> float64 option" where
  "ParseFloat str =
     (let ip = takeWhile IsDigit str; rest = dropWhile IsDigit str; fp = drop 1 rest;
          q = (of_nat (decimal ip) + of_nat (decimal fp) / 10 ^ length fp :: rat)
      in (case round64 q of Fin v \<Rightarrow> Some (Fin v) | other \<Rightarrow> None))"

definition scanNumber :: "Scanner \<Rightarrow> scanPanic + Scanner" where
  "scanNumber s0 =
     (let s1 = digits s0;
          s2 = (if peek s1 = CHR ''.'' \<and> IsDigit (peekNext s1) then digits (snd (advance s1)) else s1);
          str = slice (srcRunes s2) (start s2) (current s2)
      in (case ParseFloat str of
            None \<Rightarrow> Inl (ErrorParsingFloat str (line s2))
          | Some literal \<Rightarrow> Inr (addToken NUMBER (LNum literal) s2)))"

function identifierBody :: "Scanner \<Rightarrow> Scanner" where
  "identifierBody s =
     (if IsLetter (peek s) \<or> IsDigit (peek s) then identifierBody (snd (advance s)) else s)"
  by pat_completeness auto
termination
  by (relation "measure (\<lambda>s. length (srcRunes s) - current s)")
     (auto simp: isAtEnd_def advance_def peek_def IsDigit_def IsLetter_def split: if_splits)

definition scanIdentifier :: "Scanner \<Rightarrow> Scanner" where
  "scanIdentifier s0 =
     (let s = identifierBody s0;
          lexeme = slice (srcRunes s) (start s) (current s)
      in addToken (case identifierToTokenType lexeme of None \<Rightarrow> IDENTIFIER | Some t \<Rightarrow> t) LNil s)"

definition twoChar :: "TokenType \<Rightarrow> TokenType \<Rightarrow> Scanner \<Rightarrow> Scanner" where
  "twoChar withEqual bare s =
     (let (m, s1) = matchNext CHR ''='' s in addToken (if m then withEqual else bare) LNil s1)"

definition slashOrComment :: "Scanner \<Rightarrow> Scanner" where
  "slashOrComment s =
     (let (m, s1) = matchNext CHR ''/'' s in if m then skipComment s1 else addToken SLASH LNil s1)"

definition scanToken :: "Scanner \<Rightarrow> scanPanic + Scanner" where
  "scanToken s0 =
     (let (r, s) = advance s0 in
      if r = CHR ''('' then Inr (addToken LEFT_PAREN LNil s)
      else if r = CHR '')'' then Inr (addToken RIGHT_PAREN LNil s)
      else if r = CHR ''{'' then Inr (addToken LEFT_BRACE LNil s)
      else if r = CHR ''}'' then Inr (addToken RIGHT_BRACE LNil s)
      else if r = CHR '','' then Inr (addToken COMMA LNil s)
      else if r = CHR ''.'' then Inr (addToken DOT LNil s)
      else if r = CHR ''-'' then Inr (addToken MINUS LNil s)
      else if r = CHR ''+'' then Inr (addToken PLUS LNil s)
      else if r = CHR '';'' then Inr (addToken SEMICOLON LNil s)
      else if r = CHR ''*'' then Inr (addToken STAR LNil s)
      else if r = CHR ''!'' then Inr (twoChar BANG_EQUAL BANG s)
      else if r = CHR ''='' then Inr (twoChar EQUAL_EQUAL EQUAL s)
      else if r = CHR ''<'' then Inr (twoChar LESS_EQUAL LESS s)
      else if r = CHR ''>'' then Inr (twoChar GREATER_EQUAL GREATER s)
      else if r = CHR ''/'' then Inr (slashOrComment s)
      else if r = CHR '' '' \<or> r = CHR 0x0D \<or> r = CHR 0x09 then Inr s
      else if r = CHR 0x0A then Inr (s\<lparr>line := line s + 1\<rparr>)
      else if r = CHR 0x22 then scanString s
      else if IsDigit r then scanNumber s
      else if IsLetter r then Inr (scanIdentifier s)
      else Inl (UnexpectedCharacter r))"


declare skipComment.simps [simp del] stringBody.simps [simp del] digits.simps [simp del]
  identifierBody.simps [simp del]

lemma skipComment_progress:
  "srcRunes (skipComment s) = srcRunes s \<and> current s \<le> current (skipComment s)"
  by (induction s rule: skipComment.induct)
     (subst (1 2) skipComment.simps, auto simp: advance_def)

lemma stringBody_progress:
  "srcRunes (stringBody s) = srcRunes s \<and> current s \<le> current (stringBody s)"
  by (induction s rule: stringBody.induct)
     (subst (1 2) stringBody.simps, auto simp: advance_def)

lemma digits_progress:
  "srcRunes (digits s) = srcRunes s \<and> current s \<le> current (digits s)"
  by (induction s rule: digits.induct)
     (subst (1 2) digits.simps, auto simp: advance_def)

lemma identifierBody_progress:
  "srcRunes (identifierBody s) = srcRunes s \<and> current s \<le> current (identifierBody s)"
  by (induction s rule: identifierBody.induct)
     (subst (1 2) identifierBody.simps, auto simp: advance_def)

lemma scanToken_progress:
  assumes "scanToken s = Inr s'"
  shows "srcRunes s' = srcRunes s \<and> current s < current s'"
proof -
  have adv: "srcRunes (snd (advance s)) = srcRunes s" "current (snd (advance s)) = current s + 1"
    by (simp_all add: advance_def)
  have add: "\<And>t l x. srcRunes (addToken t l x) = srcRunes x \<and> current (addToken t l x) = current x"
    by (simp add: addToken_def)
  have mt: "\<And>c x. srcRunes (snd (matchNext c x)) = srcRunes x \<and> current x \<le> current (snd (matchNext c x))"
    by (simp add: matchNext_def)
  have tw: "\<And>a b x. srcRunes (twoChar a b x) = srcRunes x \<and> current x \<le> current (twoChar a b x)"
    using mt by (simp add: twoChar_def add split: prod.splits) (metis snd_conv)
  have sl: "\<And>x. srcRunes (slashOrComment x) = srcRunes x \<and> current x \<le> current (slashOrComment x)"
    using mt skipComment_progress
    by (auto simp: slashOrComment_def add split: prod.splits) (metis snd_conv le_trans)+
  have str: "\<And>x y. scanString x = Inr y \<Longrightarrow> srcRunes y = srcRunes x \<and> current x \<le> current y"
    using stringBody_progress
    by (auto simp: scanString_def Let_def add advance_def split: if_splits) (metis le_Suc_eq)
  have num: "\<And>x y. scanNumber x = Inr y \<Longrightarrow> srcRunes y = srcRunes x \<and> current x \<le> current y"
    using digits_progress
    by (auto simp: scanNumber_def Let_def add advance_def split: if_splits option.splits)
       (metis Suc_leD le_trans select_convs(1,3) surjective update_convs(3))+
  have idt: "\<And>x. srcRunes (scanIdentifier x) = srcRunes x \<and> current x \<le> current (scanIdentifier x)"
    using identifierBody_progress by (simp add: scanIdentifier_def Let_def add)
  obtain r x where a: "advance s = (r, x)"
    by (cases "advance s")
  have x: "srcRunes x = srcRunes s" "current x = current s + 1"
    using adv a by simp_all
  have "srcRunes s' = srcRunes x \<and> current x \<le> current s'"
    using assms unfolding scanToken_def a
    by (auto split: if_splits simp: add tw sl idt dest: str num)
  then show ?thesis
    using x by simp
qed

function scanLoop :: "Scanner \<Rightarrow> scanPanic + Scanner" where
  "scanLoop s =
     (if \<not> isAtEnd s then
        (case scanToken (s\<lparr>start := current s\<rparr>) of
           Inl p \<Rightarrow> Inl p
         | Inr s' \<Rightarrow> scanLoop s')
      else Inr s)"
  by pat_completeness auto
termination
proof (relation "measure (\<lambda>s. length (srcRunes s) - current s)")
  fix s s'
  assume "\<not> isAtEnd s" and "scanToken (s\<lparr>start := current s\<rparr>) = Inr s'"
  then show "(s', s) \<in> measure (\<lambda>s. length (srcRunes s) - current s)"
    using scanToken_progress [of "s\<lparr>start := current s\<rparr>" s']
    by (auto simp: isAtEnd_def)
qed simp

declare scanLoop.simps [simp del]

definition ScanTokens :: "string \<Rightarrow> scanPanic + Token list" where
  "ScanTokens src =
     (case scanLoop \<lparr>srcRunes = src, start = 0, current = 0, line = 1, Tokens = []\<rparr> of
        Inl p \<Rightarrow> Inl p
      | Inr s \<Rightarrow> Inr (Tokens s))"

section \<open>The parser\<close>

record Parser =
  Tokens :: "Token list"
  current :: nat
  uniqueVarReferenceCounter :: int

text \<open>
  The parser unwinds with \<^verbatim>\<open>panic(parseError{line, msg})\<close>, or with a panic of the Go
  runtime. \<open>ParserOutOfFuel\<close> marks a parse that would nest deeper than the bound of
  the model.
\<close>

datatype perror = ParseError int string | ParserPanic gopanic | ParserOutOfFuel

type_synonym 'a parsing = "Parser \<Rightarrow> (perror + 'a) \<times> Parser"

definition returnP :: "'a \<Rightarrow> 'a parsing" where
  "returnP x p = (Inr x, p)"

definition bindP :: "'a parsing \<Rightarrow> ('a \<Rightarrow> 'b parsing) \<Rightarrow> 'b parsing" where
  "bindP m f p = (case m p of (Inl e, p1) \<Rightarrow> (Inl e, p1) | (Inr x, p1) \<Rightarrow> f x p1)"

definition parseError :: "int \<Rightarrow> string \<Rightarrow> 'a parsing" where
  "parseError lnum msg p = (Inl (ParseError lnum msg), p)"

subsection \<open>Token list operations\<close>

definition pIsAtEnd :: "Parser \<Rightarrow> bool" where
  "pIsAtEnd p = (current p \<ge> length (Tokens p))"

text \<open>\<^verbatim>\<open>p.Tokens[p.current-1]\<close>: the index is \<open>-1\<close> before the first token is consumed.\<close>

definition previous :: "Token parsing" where
  "previous p =
     (if current p = 0 \<or> current p - 1 \<ge> length (Tokens p)
      then (Inl (ParserPanic IndexOutOfRange), p)
      else (Inr (Tokens p ! (current p - 1)), p))"

definition pAdvance :: "Token parsing" where
  "pAdvance p = previous (if \<not> pIsAtEnd p then p\<lparr>current := current p + 1\<rparr> else p)"

definition check :: "TokenType \<Rightarrow> Parser \<Rightarrow> bool" where
  "check typ p = (if pIsAtEnd p then False else Type (Tokens p ! current p) = typ)"

fun match :: "TokenType list \<Rightarrow> Parser \<Rightarrow> bool \<times> Parser" where
  "match [] p = (False, p)"
| "match (typ # types) p =
     (if check typ p then (True, snd (pAdvance p)) else match types p)"

definition ifMatch :: "TokenType list \<Rightarrow> 'a parsing \<Rightarrow> 'a parsing \<Rightarrow> 'a parsing" where
  "ifMatch types yes no p = (case match types p of (True, p1) \<Rightarrow> yes p1 | (False, p1) \<Rightarrow> no p1)"

definition consume :: "TokenType \<Rightarrow> string \<Rightarrow> Token parsing" where
  "consume typ errMsg p =
     (if check typ p then pAdvance p
      else bindP previous (\<lambda>t. parseError (Line t) errMsg) p)"

definition nextUniqueVarRef :: "int parsing" where
  "nextUniqueVarRef p =
     (Inr (uniqueVarReferenceCounter p),
      p\<lparr>uniqueVarReferenceCounter := uniqueVarReferenceCounter p + 1\<rparr>)"

text \<open>
  A loop of the parser consumes a token in every round, so it makes no more rounds than
  there are tokens: the loops below are given one round more than that.
\<close>

definition rounds :: "Parser \<Rightarrow> nat" where
  "rounds p = Suc (length (Tokens p))"

subsection \<open>Expressions\<close>

text \<open>
  The methods that the grammar calls recursively, for the levels of nesting below the
  current one.
\<close>

record knot =
  assignmentK :: "expr parsing"
  andK :: "expr parsing"
  unaryK :: "expr parsing"
  declarationK :: "stmt parsing"
  statementK :: "stmt parsing"

definition primary :: "knot \<Rightarrow> expr parsing" where
  "primary K =
     ifMatch [FALSE] (returnP (Literal (LBool False)))
    (ifMatch [TRUE] (returnP (Literal (LBool True)))
    (ifMatch [NIL] (returnP (Literal LNil))
    (ifMatch [NUMBER, STRING] (bindP previous (\<lambda>t. returnP (Literal (TokLiteral t))))
    (ifMatch [SUPER]
       (bindP previous (\<lambda>keyword.
        bindP (consume DOT ''Expect '.' after 'super'.'') (\<lambda>d.
        bindP (consume IDENTIFIER ''Expect superclass method name.'') (\<lambda>m.
        returnP (Super keyword m)))))
    (ifMatch [THIS] (bindP previous (\<lambda>t. returnP (This t)))
    (ifMatch [IDENTIFIER]
       (bindP previous (\<lambda>name. bindP nextUniqueVarRef (\<lambda>u. returnP (Variable name u))))
    (ifMatch [LEFT_PAREN]
       (bindP (assignmentK K) (\<lambda>e.
        bindP (consume RIGHT_PAREN ''Expect ')' after expression.'') (\<lambda>t.
        returnP (Grouping e))))
       (bindP previous (\<lambda>t. parseError (Line t)
          ''FIXME: no default case for primary production, and no error handling'')))))))))"

primrec argumentsLoop :: "nat \<Rightarrow> expr parsing \<Rightarrow> expr list \<Rightarrow> expr list parsing" where
  "argumentsLoop 0 ex args = (\<lambda>p. (Inl ParserOutOfFuel, p))"
| "argumentsLoop (Suc k) ex args =
     bindP ex (\<lambda>e. ifMatch [COMMA] (argumentsLoop k ex (args @ [e])) (returnP (args @ [e])))"

definition finishCall :: "knot \<Rightarrow> expr \<Rightarrow> expr parsing" where
  "finishCall K callee p =
     bindP (if \<not> check RIGHT_PAREN p then argumentsLoop (rounds p) (assignmentK K) []
            else returnP [])
       (\<lambda>args. bindP (consume RIGHT_PAREN ''Expect ')' after call arguments.'') (\<lambda>paren.
          returnP (Call callee paren args))) p"

primrec callLoop :: "nat \<Rightarrow> knot \<Rightarrow> expr \<Rightarrow> expr parsing" where
  "callLoop 0 K e = (\<lambda>p. (Inl ParserOutOfFuel, p))"
| "callLoop (Suc k) K e =
     ifMatch [LEFT_PAREN] (bindP (finishCall K e) (callLoop k K))
    (ifMatch [DOT]
       (bindP (consume IDENTIFIER ''Expect property name after '.'.'') (\<lambda>name.
          callLoop k K (Get e name)))
       (returnP e))"

definition call :: "knot \<Rightarrow> expr parsing" where
  "call K p = bindP (primary K) (callLoop (rounds p) K) p"

definition unary :: "knot \<Rightarrow> expr parsing" where
  "unary K =
     ifMatch [BANG, MINUS]
       (bindP previous (\<lambda>operator. bindP (unaryK K) (\<lambda>right. returnP (Unary operator right))))
       (call K)"

primrec binaryLoop :: "nat \<Rightarrow> expr parsing \<Rightarrow> TokenType list \<Rightarrow> expr \<Rightarrow> expr parsing" where
  "binaryLoop 0 next types e = (\<lambda>p. (Inl ParserOutOfFuel, p))"
| "binaryLoop (Suc k) next types e =
     ifMatch types
       (bindP previous (\<lambda>operator. bindP next (\<lambda>right.
          binaryLoop k next types (Binary e operator right))))
       (returnP e)"

definition binaryExpr :: "expr parsing \<Rightarrow> TokenType list \<Rightarrow> expr parsing" where
  "binaryExpr next types p = bindP next (binaryLoop (rounds p) next types) p"

definition factor :: "knot \<Rightarrow> expr parsing" where
  "factor K = binaryExpr (unary K) [SLASH, STAR]"

definition termP :: "knot \<Rightarrow> expr parsing" where
  "termP K = binaryExpr (factor K) [MINUS, PLUS]"

definition comparison :: "knot \<Rightarrow> expr parsing" where
  "comparison K = binaryExpr (termP K) [GREATER, GREATER_EQUAL, LESS, LESS_EQUAL]"

definition equality :: "knot \<Rightarrow> expr parsing" where
  "equality K = binaryExpr (comparison K) [BANG_EQUAL, EQUAL_EQUAL]"

primrec logicalLoop :: "nat \<Rightarrow> TokenType \<Rightarrow> expr parsing \<Rightarrow> expr \<Rightarrow> expr parsing" where
  "logicalLoop 0 typ next e = (\<lambda>p. (Inl ParserOutOfFuel, p))"
| "logicalLoop (Suc k) typ next e =
     ifMatch [typ]
       (bindP previous (\<lambda>operator. bindP next (\<lambda>right.
          logicalLoop k typ next (Logical e operator right))))
       (returnP e)"

definition andP :: "knot \<Rightarrow> expr parsing" where
  "andP K p = bindP (equality K) (logicalLoop (rounds p) AND (andK K)) p"

definition orP :: "knot \<Rightarrow> expr parsing" where
  "orP K p = bindP (andP K) (logicalLoop (rounds p) OR (andP K)) p"

definition assignment :: "knot \<Rightarrow> expr parsing" where
  "assignment K =
     bindP (orP K) (\<lambda>e.
       ifMatch [EQUAL]
         (bindP (assignmentK K) (\<lambda>rValue.
            case e of
              Variable name u \<Rightarrow> returnP (Assign name rValue)
            | Get object name \<Rightarrow> returnP (SetExpr object name rValue)
            | other \<Rightarrow> bindP previous (\<lambda>t. parseError (Line t) ''Invalid l-value in assignment.'')))
         (returnP e))"

definition expression :: "knot \<Rightarrow> expr parsing" where
  "expression K = assignment K"


subsection \<open>Statements\<close>

definition expressionStatement :: "knot \<Rightarrow> stmt parsing" where
  "expressionStatement K =
     bindP (expression K) (\<lambda>e.
     bindP (consume SEMICOLON ''Expect ';' after expression.'') (\<lambda>t. returnP (ExprStmt e)))"

definition varDeclaration :: "knot \<Rightarrow> stmt parsing" where
  "varDeclaration K =
     bindP (consume IDENTIFIER ''Expect variable name.'') (\<lambda>name.
     bindP (ifMatch [EQUAL] (bindP (expression K) (\<lambda>e. returnP (Some e))) (returnP None))
       (\<lambda>initialializer.
     bindP (consume SEMICOLON ''Expect ';' after variable declaration.'') (\<lambda>t.
     returnP (VariableStmt name initialializer))))"

primrec blockLoop :: "nat \<Rightarrow> knot \<Rightarrow> stmt list \<Rightarrow> stmt list parsing" where
  "blockLoop 0 K stmts = (\<lambda>p. (Inl ParserOutOfFuel, p))"
| "blockLoop (Suc k) K stmts =
     (\<lambda>p. if \<not> check RIGHT_BRACE p \<and> \<not> pIsAtEnd p
          then bindP (declarationK K) (\<lambda>s. blockLoop k K (stmts @ [s])) p
          else returnP stmts p)"

definition block :: "knot \<Rightarrow> stmt list parsing" where
  "block K p =
     bindP (blockLoop (rounds p) K []) (\<lambda>stmts.
     bindP (consume RIGHT_BRACE ''Expect '}' after block.'') (\<lambda>t. returnP stmts)) p"

primrec paramsLoop :: "nat \<Rightarrow> Token list \<Rightarrow> Token list parsing" where
  "paramsLoop 0 params = (\<lambda>p. (Inl ParserOutOfFuel, p))"
| "paramsLoop (Suc k) params =
     bindP (consume IDENTIFIER ''Expect parameter name'') (\<lambda>param.
       ifMatch [COMMA] (paramsLoop k (params @ [param])) (returnP (params @ [param])))"

definition funDeclaration :: "knot \<Rightarrow> string \<Rightarrow> functionStmt parsing" where
  "funDeclaration K kind =
     bindP (consume IDENTIFIER (''Expect '' @ kind @ '' name.'')) (\<lambda>name.
     bindP (consume LEFT_PAREN (''Expect '(' after '' @ kind @ '' name.'')) (\<lambda>t1.
     bindP (\<lambda>p. if \<not> check RIGHT_PAREN p then paramsLoop (rounds p) [] p else returnP [] p)
       (\<lambda>params.
     bindP (consume RIGHT_PAREN ''Expect ')' after parameters.'') (\<lambda>t2.
     bindP (consume LEFT_BRACE (''Expect '{' before '' @ kind @ '' body.'')) (\<lambda>t3.
     bindP (block K) (\<lambda>body.
     returnP (FunctionStmt name params body)))))))"

primrec methodsLoop :: "nat \<Rightarrow> knot \<Rightarrow> functionStmt list \<Rightarrow> functionStmt list parsing" where
  "methodsLoop 0 K ms = (\<lambda>p. (Inl ParserOutOfFuel, p))"
| "methodsLoop (Suc k) K ms =
     (\<lambda>p. if \<not> check RIGHT_BRACE p \<and> current p < length (Tokens p)
          then bindP (funDeclaration K ''method'') (\<lambda>m. methodsLoop k K (ms @ [m])) p
          else returnP ms p)"

definition classDeclaration :: "knot \<Rightarrow> stmt parsing" where
  "classDeclaration K =
     bindP (consume IDENTIFIER ''Expect class name.'') (\<lambda>name.
     bindP (ifMatch [LESS]
              (bindP (consume IDENTIFIER ''Expect superclass name after '<'.'') (\<lambda>t.
               bindP previous (\<lambda>sname.
               bindP nextUniqueVarRef (\<lambda>u. returnP (Some (sname, u))))))
              (returnP None)) (\<lambda>superclass.
     bindP (consume LEFT_BRACE ''Expect '{' before class body.'') (\<lambda>t1.
     bindP (\<lambda>p. methodsLoop (rounds p) K [] p) (\<lambda>ms.
     bindP (consume RIGHT_BRACE ''Expect '}' after class body.'') (\<lambda>t2.
     returnP (ClassStmt name superclass ms))))))"

definition printStatement :: "knot \<Rightarrow> stmt parsing" where
  "printStatement K =
     bindP (expression K) (\<lambda>v.
     bindP (consume SEMICOLON ''Expect ';' after value.'') (\<lambda>t. returnP (PrintStmt v)))"

definition returnStatement :: "knot \<Rightarrow> stmt parsing" where
  "returnStatement K =
     bindP previous (\<lambda>keyword.
     bindP (\<lambda>p. if \<not> check SEMICOLON p then bindP (expression K) (\<lambda>e. returnP (Some e)) p
                 else returnP None p) (\<lambda>v.
     bindP (consume SEMICOLON ''Expect ';' after return statement.'') (\<lambda>t.
     returnP (ReturnStmt keyword v))))"

definition ifStatement :: "knot \<Rightarrow> stmt parsing" where
  "ifStatement K =
     bindP (consume LEFT_PAREN ''Expect '(' after 'if'.'') (\<lambda>t1.
     bindP (expression K) (\<lambda>condition.
     bindP (consume RIGHT_PAREN ''Expect ')' after if condition.'') (\<lambda>t2.
     bindP (statementK K) (\<lambda>thenBranch.
     bindP (ifMatch [ELSE] (bindP (statementK K) (\<lambda>s. returnP (Some s))) (returnP None))
       (\<lambda>elseBranch.
     returnP (IfStmt condition thenBranch elseBranch))))))"

definition whileStatement :: "knot \<Rightarrow> stmt parsing" where
  "whileStatement K =
     bindP (consume LEFT_PAREN ''Expect '(' after 'while'.'') (\<lambda>t1.
     bindP (expression K) (\<lambda>condition.
     bindP (consume RIGHT_PAREN ''Expect ')' after while condition.'') (\<lambda>t2.
     bindP (statementK K) (\<lambda>body.
     returnP (WhileStmt condition body)))))"

text \<open>The rewriting of a \<^verbatim>\<open>for\<close> loop into a \<^verbatim>\<open>while\<close> loop, at the end of \<^verbatim>\<open>forStatement\<close>.\<close>

definition desugarFor :: "stmt option \<Rightarrow> expr option \<Rightarrow> expr option \<Rightarrow> stmt \<Rightarrow> stmt" where
  "desugarFor initializer condition increment body =
     (let body1 = (case increment of None \<Rightarrow> body
                   | Some inc \<Rightarrow> BlockStmt [body, ExprStmt inc]);
          condition1 = (case condition of None \<Rightarrow> Literal (LBool True) | Some c \<Rightarrow> c);
          body2 = WhileStmt condition1 body1
      in (case initializer of None \<Rightarrow> body2 | Some i \<Rightarrow> BlockStmt [i, body2]))"

definition forStatement :: "knot \<Rightarrow> stmt parsing" where
  "forStatement K =
     bindP (consume LEFT_PAREN ''Expect '(' after 'for'.'') (\<lambda>t1.
     bindP (ifMatch [SEMICOLON] (returnP None)
             (ifMatch [VAR] (bindP (varDeclaration K) (\<lambda>s. returnP (Some s)))
                (bindP (expressionStatement K) (\<lambda>s. returnP (Some s))))) (\<lambda>initializer.
     bindP (\<lambda>p. if \<not> check SEMICOLON p then bindP (expression K) (\<lambda>e. returnP (Some e)) p
                 else returnP None p) (\<lambda>condition.
     bindP (consume SEMICOLON ''Expect ';' after loop condition.'') (\<lambda>t2.
     bindP (\<lambda>p. if \<not> check RIGHT_PAREN p then bindP (expression K) (\<lambda>e. returnP (Some e)) p
                 else returnP None p) (\<lambda>increment.
     bindP (consume RIGHT_PAREN ''Expect ')' after for clause.'') (\<lambda>t3.
     bindP (statementK K) (\<lambda>body.
     returnP (desugarFor initializer condition increment body))))))))"

definition statementP :: "knot \<Rightarrow> stmt parsing" where
  "statementP K =
     ifMatch [FOR] (forStatement K)
    (ifMatch [IF] (ifStatement K)
    (ifMatch [PRINT] (printStatement K)
    (ifMatch [RETURN] (returnStatement K)
    (ifMatch [WHILE] (whileStatement K)
    (ifMatch [LEFT_BRACE] (bindP (block K) (\<lambda>stmts. returnP (BlockStmt stmts)))
    (expressionStatement K))))))"

definition declarationP :: "knot \<Rightarrow> stmt parsing" where
  "declarationP K =
     ifMatch [CLASS] (classDeclaration K)
    (ifMatch [FUN] (bindP (funDeclaration K ''function'') (\<lambda>f. returnP (FunctionS f)))
    (ifMatch [VAR] (varDeclaration K)
    (statementP K)))"

subsection \<open>Closing the recursion of the grammar\<close>

primrec grammar :: "nat \<Rightarrow> knot" where
  "grammar 0 =
     \<lparr>assignmentK = (\<lambda>p. (Inl ParserOutOfFuel, p)), andK = (\<lambda>p. (Inl ParserOutOfFuel, p)),
      unaryK = (\<lambda>p. (Inl ParserOutOfFuel, p)), declarationK = (\<lambda>p. (Inl ParserOutOfFuel, p)),
      statementK = (\<lambda>p. (Inl ParserOutOfFuel, p))\<rparr>"
| "grammar (Suc n) =
     \<lparr>assignmentK = assignment (grammar n), andK = andP (grammar n), unaryK = unary (grammar n),
      declarationK = declarationP (grammar n), statementK = statementP (grammar n)\<rparr>"

primrec parseLoop :: "nat \<Rightarrow> knot \<Rightarrow> stmt list \<Rightarrow> stmt list parsing" where
  "parseLoop 0 K statements = (\<lambda>p. (Inl ParserOutOfFuel, p))"
| "parseLoop (Suc k) K statements =
     (\<lambda>p. if \<not> pIsAtEnd p
          then bindP (declarationP K) (\<lambda>s. parseLoop k K (statements @ [s])) p
          else returnP statements p)"

text \<open>
  \<^verbatim>\<open>Parse\<close>: a \<^verbatim>\<open>parseError\<close> is recovered and returned as the error; any other panic
  fails the type assertion of the deferred function and leaves \<^verbatim>\<open>Parse\<close>. The first
  argument bounds the nesting of the program.
\<close>

definition Parse :: "nat \<Rightarrow> Token list \<Rightarrow> perror + stmt list" where
  "Parse n toks =
     (let p = \<lparr>Tokens = toks, current = 0, uniqueVarReferenceCounter = 0\<rparr> in
      case fst (parseLoop (rounds p) (grammar n) [] p) of
        Inl (ParserPanic g) \<Rightarrow> Inl (ParserPanic TypeAssertion)
      | other \<Rightarrow> other)"



declare argumentsLoop.simps [simp del] callLoop.simps [simp del] binaryLoop.simps [simp del]
  logicalLoop.simps [simp del] blockLoop.simps [simp del] paramsLoop.simps [simp del]
  methodsLoop.simps [simp del] parseLoop.simps [simp del] grammar.simps [simp del]

section \<open>The driver\<close>

text \<open>
  \<^verbatim>\<open>Lox.run\<close>: scan, parse, resolve, interpret, stopping at the first error. A panic of
  the scanner is not recovered anywhere, nor is a panic that leaves \<^verbatim>\<open>Parse\<close>,
  \<^verbatim>\<open>Resolve\<close> or \<^verbatim>\<open>Interpret\<close>: the process ends with it. The first argument bounds
  the nesting of the program and of its execution.
\<close>

datatype outcome =
    ScannerPanic scanPanic
  | ParseFailed int string
  | ResolveFailed int resmsg
  | InterpretFailed int rtmsg
  | Crashed gopanic
  | Unfinished
  | Completed

text \<open>The part of \<^verbatim>\<open>Lox.run\<close> that follows a successful parse.\<close>

definition resolveAndInterpret ::
  "nat \<Rightarrow> nat \<Rightarrow> stmt list \<Rightarrow> Interpreter \<Rightarrow> outcome \<times> Interpreter" where
  "resolveAndInterpret n pick stmts st =
     (case Resolve stmts (NewResolver pick st) of
        (Inl g, r) \<Rightarrow> (Crashed g, interpreter r)
      | (Inr (Some (lnum, msg)), r) \<Rightarrow> (ResolveFailed lnum msg, interpreter r)
      | (Inr None, r) \<Rightarrow>
          (case Interpret n stmts (interpreter r) of
             (Inl OutOfFuel, st1) \<Rightarrow> (Unfinished, st1)
           | (Inl (GoPanic g), st1) \<Rightarrow> (Crashed g, st1)
           | (Inl other, st1) \<Rightarrow> (Crashed TypeAssertion, st1)
           | (Inr (Some (lnum, msg)), st1) \<Rightarrow> (InterpretFailed lnum msg, st1)
           | (Inr None, st1) \<Rightarrow> (Completed, st1)))"

definition runTokens :: "nat \<Rightarrow> nat \<Rightarrow> Token list \<Rightarrow> Interpreter \<Rightarrow> outcome \<times> Interpreter" where
  "runTokens n pick toks st =
     (case Parse n toks of
        Inl (ParseError lnum msg) \<Rightarrow> (ParseFailed lnum msg, st)
      | Inl (ParserPanic g) \<Rightarrow> (Crashed g, st)
      | Inl ParserOutOfFuel \<Rightarrow> (Unfinished, st)
      | Inr stmts \<Rightarrow> resolveAndInterpret n pick stmts st)"

definition run :: "nat \<Rightarrow> nat \<Rightarrow> string \<Rightarrow> Interpreter \<Rightarrow> outcome \<times> Interpreter" where
  "run n pick src st =
     (case ScanTokens src of
        Inl sp \<Rightarrow> (ScannerPanic sp, st)
      | Inr toks \<Rightarrow> runTokens n pick toks st)"

section \<open>Programs used below\<close>

text \<open>A token of line 1 that carries no literal.\<close>

definition tok :: "TokenType \<Rightarrow> string \<Rightarrow> Token" where
  "tok typ lexeme = \<lparr>Type = typ, Lexeme = lexeme, TokLiteral = LNil, Line = 1\<rparr>"

text \<open>The tokens of \<^verbatim>\<open>class F{init(){return;}}print F();print F().init();\<close>\<close>

definition initTokens :: "Token list" where
  "initTokens =
     [tok CLASS ''class'', tok IDENTIFIER ''F'', tok LEFT_BRACE ''{'',
      tok IDENTIFIER ''init'', tok LEFT_PAREN ''('', tok RIGHT_PAREN '')'',
      tok LEFT_BRACE ''{'', tok RETURN ''return'', tok SEMICOLON '';'', tok RIGHT_BRACE ''}'',
      tok RIGHT_BRACE ''}'',
      tok PRINT ''print'', tok IDENTIFIER ''F'', tok LEFT_PAREN ''('', tok RIGHT_PAREN '')'',
      tok SEMICOLON '';'',
      tok PRINT ''print'', tok IDENTIFIER ''F'', tok LEFT_PAREN ''('', tok RIGHT_PAREN '')'',
      tok DOT ''.'', tok IDENTIFIER ''init'', tok LEFT_PAREN ''('', tok RIGHT_PAREN '')'',
      tok SEMICOLON '';'']"

text \<open>The tokens of \<^verbatim>\<open>class A{m(){print this;{print this;}}}A().m();\<close>\<close>

definition thisTokens :: "Token list" where
  "thisTokens =
     [tok CLASS ''class'', tok IDENTIFIER ''A'', tok LEFT_BRACE ''{'',
      tok IDENTIFIER ''m'', tok LEFT_PAREN ''('', tok RIGHT_PAREN '')'',
      tok LEFT_BRACE ''{'', tok PRINT ''print'', tok THIS ''this'', tok SEMICOLON '';'',
      tok LEFT_BRACE ''{'', tok PRINT ''print'', tok THIS ''this'', tok SEMICOLON '';'',
      tok RIGHT_BRACE ''}'', tok RIGHT_BRACE ''}'', tok RIGHT_BRACE ''}'',
      tok IDENTIFIER ''A'', tok LEFT_PAREN ''('', tok RIGHT_PAREN '')'', tok DOT ''.'',
      tok IDENTIFIER ''m'', tok LEFT_PAREN ''('', tok RIGHT_PAREN '')'', tok SEMICOLON '';'']"

text \<open>The tokens of \<^verbatim>\<open>{var a;a=nil;{a=nil;}}\<close> and of \<^verbatim>\<open>{var a;a=nil;}\<close>.\<close>

definition assignTokens :: "Token list" where
  "assignTokens =
     [tok LEFT_BRACE ''{'', tok VAR ''var'', tok IDENTIFIER ''a'', tok SEMICOLON '';'',
      tok IDENTIFIER ''a'', tok EQUAL ''='', tok NIL ''nil'', tok SEMICOLON '';'',
      tok LEFT_BRACE ''{'', tok IDENTIFIER ''a'', tok EQUAL ''='', tok NIL ''nil'',
      tok SEMICOLON '';'', tok RIGHT_BRACE ''}'', tok RIGHT_BRACE ''}'']"

definition assignTokensShort :: "Token list" where
  "assignTokensShort =
     [tok LEFT_BRACE ''{'', tok VAR ''var'', tok IDENTIFIER ''a'', tok SEMICOLON '';'',
      tok IDENTIFIER ''a'', tok EQUAL ''='', tok NIL ''nil'', tok SEMICOLON '';'',
      tok RIGHT_BRACE ''}'']"

definition assignNode :: expr where
  "assignNode = Assign (tok IDENTIFIER ''a'') (Literal LNil)"

definition plusToken :: Token where
  "plusToken = \<lparr>Type = PLUS, Lexeme = ''+'', TokLiteral = LNil, Line = 1\<rparr>"

definition slashToken :: Token where
  "slashToken = \<lparr>Type = SLASH, Lexeme = ''/'', TokLiteral = LNil, Line = 1\<rparr>"

definition orToken :: Token where
  "orToken = \<lparr>Type = OR, Lexeme = ''or'', TokLiteral = LNil, Line = 1\<rparr>"

section \<open>Unfolding the interpreter\<close>

lemma evaluate_0: "evaluate 0 e st = (Inl OutOfFuel, st)"
  by (simp add: evaluate_def)

lemma execute_0: "execute 0 s st = (Some OutOfFuel, st)"
  by (simp add: execute_def)

lemma evaluate_Suc: "evaluate (Suc n) e st = acceptExpr (evaluate n) (execute n) e st"
  by (simp add: evaluate_def execute_def)

lemma execute_Suc: "execute (Suc n) s st = acceptStmt (evaluate n) (execute n) s st"
  by (simp add: evaluate_def execute_def)

lemma evaluate_numeral:
  "evaluate (numeral k) e st = acceptExpr (evaluate (pred_numeral k)) (execute (pred_numeral k)) e st"
  by (simp add: numeral_eq_Suc evaluate_Suc)

lemma execute_numeral:
  "execute (numeral k) s st = acceptStmt (evaluate (pred_numeral k)) (execute (pred_numeral k)) s st"
  by (simp add: numeral_eq_Suc execute_Suc)

lemma ancestorN_numeral:
  "ancestorN es e (numeral k) =
     (case e of None \<Rightarrow> Inl NilDereference
      | Some a \<Rightarrow> ancestorN es (enclosing (es ! a)) (pred_numeral k))"
  by (simp add: numeral_eq_Suc)

lemmas interp_defs =
  Interpret_def NewInterpreter_def init_def allocEnv_def updEnv_def putEnv_def ensureInit_def
  ancestorN_numeral evaluate_Suc execute_Suc evaluate_numeral execute_numeral evaluate_0 execute_0
  acceptStmt_def acceptExpr_def VisitClassStmt_def declareClass_def envDefine_def buildMethods_def
  zeroClass_def assign_def mapGet_def VisitVarStmt_def VisitCall_def lookupVariable_def get_def
  callValue_def classArity_def Arity_def callClass_def allocInstance_def bindMethodToInstance_def
  callFunction_def executeBlock_def VisitReturnStmt_def VisitPrintStmt_def VisitGet_def
  instanceGet_def getAt_def ancestor_def thisToken_def Let_def VisitBlockStmt_def
  VisitExpressionStmt_def VisitFunctionStmt_def VisitIfStmt_def VisitWhileStmt_def VisitAssign_def
  VisitBinary_def VisitSet_def VisitLogical_def VisityUnary_def VisitSuper_def assignAt_def
  binaryOp_def numeric_def checkNumberOperands_def checkStringOperands_def unaryOp_def
  instanceSet_def readClock_def

lemmas resolver_defs =
  Resolve_def NewResolver_def inOrder_def andThen_def proceed_def beginScope_def endScope_def
  peekScope_def setPeek_def declareName_def defineName_def declareDefine_def resolveLocal_def
  raise_def resolveVariable_def resolveSuper_def resolveThis_def withFunctionType_def
  methodType_def resolveReturn_def resolveClass_def containsKey_def scopeEnsureInit_def
  scopeDeclare_def scopeDefine_def scopeReference_def isReferenced_def keys_def unusedKeys_def
  interpreterResolve_def


section \<open>Unfolding the scanner and the parser\<close>

lemmas scanner_defs =
  ScanTokens_def scanLoop.simps scanToken_def isAtEnd_def advance_def matchNext_def peek_def
  peekNext_def slice_def addToken_def skipComment.simps stringBody.simps scanString_def
  digits.simps digitValue_def decimal_def ParseFloat_def scanNumber_def identifierBody.simps
  scanIdentifier_def twoChar_def slashOrComment_def IsDigit_def IsLetter_def
  identifierToTokenType_def Let_def

lemma grammar_Suc:
  "assignmentK (grammar (Suc n)) p = assignment (grammar n) p"
  "andK (grammar (Suc n)) p = andP (grammar n) p"
  "unaryK (grammar (Suc n)) p = unary (grammar n) p"
  "declarationK (grammar (Suc n)) p = declarationP (grammar n) p"
  "statementK (grammar (Suc n)) p = statementP (grammar n) p"
  by (simp_all add: grammar.simps)

lemma grammar_0:
  "assignmentK (grammar 0) p = (Inl ParserOutOfFuel, p)"
  "andK (grammar 0) p = (Inl ParserOutOfFuel, p)"
  "unaryK (grammar 0) p = (Inl ParserOutOfFuel, p)"
  "declarationK (grammar 0) p = (Inl ParserOutOfFuel, p)"
  "statementK (grammar 0) p = (Inl ParserOutOfFuel, p)"
  by (simp_all add: grammar.simps)

lemma grammar_numeral:
  "assignmentK (grammar (numeral k)) p = assignment (grammar (pred_numeral k)) p"
  "andK (grammar (numeral k)) p = andP (grammar (pred_numeral k)) p"
  "unaryK (grammar (numeral k)) p = unary (grammar (pred_numeral k)) p"
  "declarationK (grammar (numeral k)) p = declarationP (grammar (pred_numeral k)) p"
  "statementK (grammar (numeral k)) p = statementP (grammar (pred_numeral k)) p"
  by (simp_all add: numeral_eq_Suc grammar.simps)

lemmas parser_defs =
  Parse_def returnP_def bindP_def parseError_def pIsAtEnd_def previous_def pAdvance_def check_def
  ifMatch_def consume_def nextUniqueVarRef_def rounds_def
  grammar_Suc grammar_0 grammar_numeral
  primary_def [THEN fun_cong] finishCall_def call_def unary_def [THEN fun_cong]
  binaryExpr_def factor_def [THEN fun_cong] termP_def [THEN fun_cong]
  comparison_def [THEN fun_cong] equality_def [THEN fun_cong] andP_def orP_def
  assignment_def [THEN fun_cong] expression_def [THEN fun_cong]
  expressionStatement_def [THEN fun_cong] varDeclaration_def [THEN fun_cong] block_def
  funDeclaration_def [THEN fun_cong] classDeclaration_def [THEN fun_cong]
  printStatement_def [THEN fun_cong] returnStatement_def [THEN fun_cong]
  ifStatement_def [THEN fun_cong] whileStatement_def [THEN fun_cong] desugarFor_def
  forStatement_def [THEN fun_cong] statementP_def [THEN fun_cong]
  declarationP_def [THEN fun_cong]
  argumentsLoop.simps [THEN fun_cong] callLoop.simps [THEN fun_cong]
  binaryLoop.simps [THEN fun_cong] logicalLoop.simps [THEN fun_cong]
  blockLoop.simps [THEN fun_cong] paramsLoop.simps [THEN fun_cong]
  methodsLoop.simps [THEN fun_cong] parseLoop.simps [THEN fun_cong]

section \<open>Binary operators\<close>

lemma evaluate_Binary:
  assumes "evaluate n left st = (Inr l, st1)" and "evaluate n right st1 = (Inr r, st2)"
  shows "evaluate (Suc n) (Binary left opr right) st = (binaryOp st2 opr l r, st2)"
  using assms by (simp add: evaluate_Suc acceptExpr_def VisitBinary_def)

lemma fdiv_by_zero: "isZero b \<Longrightarrow> isInf (fdiv a b) \<or> isNaN (fdiv a b)"
  by (cases a; cases b) (auto simp: fdiv_def signedInf_def)














text \<open>
  C10. Evaluating \<open>left / right\<close> once both operands have values: two numbers give their
  float64 quotient and no panic at all, also when the divisor is zero, where the
  quotient is an infinity or a NaN; the evaluation panics, with a runtime error,
  exactly when an operand is not a number.
\<close>

theorem slash_operands:
  assumes "Type opr = SLASH"
    and "evaluate n left st = (Inr l, st1)"
    and "evaluate n right st1 = (Inr r, st2)"
  shows "(\<forall>a b. l = VNum a \<and> r = VNum b \<longrightarrow>
            evaluate (Suc n) (Binary left opr right) st = (Inr (VNum (fdiv a b)), st2)
            \<and> (isZero b \<longrightarrow> isInf (fdiv a b) \<or> isNaN (fdiv a b)))
       \<and> ((\<exists>p. evaluate (Suc n) (Binary left opr right) st = (Inl p, st2))
            \<longleftrightarrow> (\<not> isNumber l \<or> \<not> isNumber r))
       \<and> (\<not> isNumber l \<or> \<not> isNumber r \<longrightarrow>
            evaluate (Suc n) (Binary left opr right) st
              = (Inl (RuntimeError (Line opr) (MustBeNumbers (Lexeme opr) l r)), st2))"
proof -
  have e: "evaluate (Suc n) (Binary left opr right) st = (binaryOp st2 opr l r, st2)"
    using assms(2,3) by (rule evaluate_Binary)
  have b: "binaryOp st2 opr l r = numeric opr (\<lambda>a b. VNum (fdiv a b)) l r"
    using assms(1) by (simp add: binaryOp_def)
  have num: "\<And>a b. numeric opr (\<lambda>a b. VNum (fdiv a b)) (VNum a) (VNum b) = Inr (VNum (fdiv a b))"
    by (simp add: numeric_def checkNumberOperands_def)
  have bad: "\<not> isNumber l \<or> \<not> isNumber r \<Longrightarrow>
      numeric opr (\<lambda>a b. VNum (fdiv a b)) l r
        = Inl (RuntimeError (Line opr) (MustBeNumbers (Lexeme opr) l r))"
    by (auto simp: numeric_def checkNumberOperands_def)
  have good: "isNumber l \<Longrightarrow> isNumber r \<Longrightarrow>
      \<exists>v. numeric opr (\<lambda>a b. VNum (fdiv a b)) l r = Inr v"
    by (cases l; cases r) (simp_all add: num)
  show ?thesis
    using e b num bad good fdiv_by_zero by (auto simp del: isNumber.simps)
qed

theorem slash_operands_witness:
  "evaluate 2 (Binary (Literal (LNum (Fin 1))) slashToken (Literal (LNum (Fin 0)))) NewInterpreter
     = (Inr (VNum PInf), NewInterpreter)
   \<and> evaluate 2 (Binary (Literal (LNum (Fin 0))) slashToken (Literal (LNum (Fin 0)))) NewInterpreter
     = (Inr (VNum NaN), NewInterpreter)"
proof -
  have t: "Type slashToken = SLASH" by (simp add: slashToken_def)
  have one: "evaluate (Suc 0) (Literal (LNum (Fin 1))) NewInterpreter
             = (Inr (VNum (Fin 1)), NewInterpreter)"
    by (simp add: evaluate_Suc acceptExpr_def)
  have zero: "evaluate (Suc 0) (Literal (LNum (Fin 0))) NewInterpreter
             = (Inr (VNum (Fin 0)), NewInterpreter)"
    by (simp add: evaluate_Suc acceptExpr_def)
  have q1: "fdiv (Fin 1) (Fin 0) = PInf" by (simp add: fdiv_def signedInf_def)
  have q0: "fdiv (Fin 0) (Fin 0) = NaN" by (simp add: fdiv_def)
  show ?thesis
    using slash_operands [OF t one zero] slash_operands [OF t zero zero]
    by (simp add: numeral_2_eq_2 q1 q0)
qed

section \<open>Logical operators\<close>

text \<open>
  C8. Evaluating \<open>left or right\<close> and \<open>left and right\<close> once the left operand has the
  value \<open>l\<close>. When \<open>l\<close> decides (truthy for \<open>or\<close>, falsy for \<open>and\<close>) the result is \<open>l\<close>
  itself, and the state is the one the left operand left behind: nothing of the right
  operand has happened. That holds whatever evaluating the right operand would do
  (\<open>VisitLogical\<close> with any evaluator \<open>ev\<close>). Otherwise the result and the state are
  those of evaluating the right operand next.
\<close>

theorem logical_short_circuit:
  assumes "Type opr = OR \<or> Type opr = AND"
    and "evaluate n left st = (Inr l, st1)"
  shows "((Type opr = OR \<and> isTruthy l) \<or> (Type opr = AND \<and> \<not> isTruthy l) \<longrightarrow>
            evaluate (Suc n) (Logical left opr right) st = (Inr l, st1)
            \<and> (\<forall>ev. ev left st = (Inr l, st1) \<longrightarrow>
                  VisitLogical ev left opr right st = (Inr l, st1)))
       \<and> ((Type opr = OR \<and> \<not> isTruthy l) \<or> (Type opr = AND \<and> isTruthy l) \<longrightarrow>
            evaluate (Suc n) (Logical left opr right) st = evaluate n right st1)"
  using assms by (auto simp: evaluate_Suc acceptExpr_def VisitLogical_def)

theorem logical_short_circuit_witness:
  "evaluate 2 (Logical (Literal (LStr ''left'')) orToken
                 (Binary (Literal LNil) plusToken (Literal LNil))) NewInterpreter
     = (Inr (VStr ''left''), NewInterpreter)
   \<and> evaluate 2 (Logical (Literal LNil) orToken (Literal (LNum (Fin 1)))) NewInterpreter
     = evaluate 1 (Literal (LNum (Fin 1))) NewInterpreter"
proof -
  have t: "Type orToken = OR \<or> Type orToken = AND" by (simp add: orToken_def)
  have l: "evaluate (Suc 0) (Literal (LStr ''left'')) NewInterpreter
             = (Inr (VStr ''left''), NewInterpreter)"
    by (simp add: evaluate_Suc acceptExpr_def)
  have nil: "evaluate (Suc 0) (Literal LNil) NewInterpreter = (Inr VNil, NewInterpreter)"
    by (simp add: evaluate_Suc acceptExpr_def)
  show ?thesis
    using logical_short_circuit [OF t l] logical_short_circuit [OF t nil]
    by (simp add: numeral_2_eq_2 orToken_def)
qed


section \<open>The current environment\<close>

text \<open>
  No operation of the environments, instances and classes touches \<^verbatim>\<open>i.env\<close>; the only
  assignments to it are those of \<^verbatim>\<open>executeBlock\<close> and \<^verbatim>\<open>VisitClassStmt\<close>.
\<close>

lemma keepsEnvV_D: "keepsEnvV ev \<Longrightarrow> ev e st = (r, st1) \<Longrightarrow> env st1 = env st"
  unfolding keepsEnvV_def by (metis snd_conv)

lemma keepsEnvX_D: "keepsEnvX ex \<Longrightarrow> ex s st = (r, st1) \<Longrightarrow> env st1 = env st"
  unfolding keepsEnvX_def by (metis snd_conv)

lemma env_updEnv: "env (updEnv a f st) = env st"
  by (simp add: updEnv_def)

lemma env_allocEnv: "env (snd (allocEnv e st)) = env st"
  by (simp add: allocEnv_def)

lemma env_allocInstance: "env (snd (allocInstance x st)) = env st"
  by (simp add: allocInstance_def)

lemma env_envDefine: "env (snd (envDefine e name v st)) = env st"
  by (simp add: envDefine_def env_updEnv split: option.splits)

lemma env_assignFrom: "env (snd (assignFrom k a name v st)) = env st"
  by (induction k arbitrary: a st) (auto simp: Let_def env_updEnv split: option.splits)

lemma env_assign: "env (snd (assign e name v st)) = env st"
  by (simp add: assign_def env_assignFrom del: assignFrom.simps split: option.splits)

lemma env_assignAt: "env (snd (assignAt e d name v st)) = env st"
  by (auto simp: assignAt_def Let_def env_updEnv split: option.splits sum.splits)

lemma env_instanceSet: "env (instanceSet inst name v st) = env st"
  by (simp add: instanceSet_def)

lemma env_bindMethodToInstance: "env (snd (bindMethodToInstance f inst st)) = env st"
  by (simp add: bindMethodToInstance_def allocEnv_def env_updEnv Let_def)

lemma env_instanceGet: "env (snd (instanceGet inst name st)) = env st"
  by (auto simp: instanceGet_def env_bindMethodToInstance split: option.splits prod.splits)
     (metis env_bindMethodToInstance snd_conv)

lemma env_readClock: "env (snd (readClock st)) = env st"
  by (simp add: readClock_def split: list.splits)

lemma env_bindParams: "env (snd (bindParams ps vs a st)) = env st"
  by (induction ps vs a st rule: bindParams.induct) (simp_all add: env_updEnv)

lemma env_VisitSuper: "env (snd (VisitSuper kw m st)) = env st"
  by (auto simp: VisitSuper_def Let_def split: option.splits sum.splits val.splits prod.splits)
     (metis env_bindMethodToInstance snd_conv)+


lemma env_declareClass: "env (snd (declareClass name hasSuper ms superclass st)) = env st"
proof (cases "envDefine (env st) (Lexeme name) VNil st")
  case (Pair r st1)
  have e1: "env st1 = env st"
    using env_envDefine [of "env st" "Lexeme name" VNil st] Pair by simp
  show ?thesis
  proof (cases r)
    case (Some p)
    then show ?thesis using Pair e1 by (simp add: declareClass_def)
  next
    case None
    show ?thesis
    proof (cases hasSuper)
      case False
      then show ?thesis
        using Pair None e1 by (simp add: declareClass_def Let_def env_assign)
    next
      case True
      define a where "a = length (envs st1)"
      define s3 where "s3 = updEnv a (putEnv ''super'' (VClass superclass) \<circ> ensureInit)
          ((st1\<lparr>envs := envs st1 @ [\<lparr>envMap = None, enclosing = env st1, envInterpreter = False\<rparr>]\<rparr>)
             \<lparr>env := Some a\<rparr>)"
      have enc: "enclosing (envs s3 ! a) = env st1"
        by (simp add: s3_def a_def updEnv_def putEnv_def ensureInit_def)
      have "declareClass name hasSuper ms superclass st
          = assign (env st1) name
              (VClass (Class (Lexeme name) (Some (buildMethods ms (Some a))) (Some superclass)))
              (s3\<lparr>env := env st1\<rparr>)"
        using Pair None True enc
        by (simp add: declareClass_def Let_def allocEnv_def s3_def [symmetric] a_def [symmetric]
              env_updEnv)
      then show ?thesis
        using e1 by (simp add: env_assign)
    qed
  qed
qed

lemma env_executeStmts:
  "keepsEnvX ex \<Longrightarrow> env (snd (executeStmts ex ss st)) = env st"
proof (induction ss arbitrary: st)
  case Nil
  then show ?case by simp
next
  case (Cons s ss)
  obtain r st1 where r: "ex s st = (r, st1)" by (cases "ex s st")
  have "env st1 = env st" using Cons.prems r by (rule keepsEnvX_D)
  then show ?case
    using Cons r by (cases r) simp_all
qed

lemma env_executeBlock: "env (snd (executeBlock ex ss newEnv st)) = env st"
  by (simp add: executeBlock_def Let_def split: prod.splits)

lemma env_callFunction: "env (snd (callFunction ex f params st)) = env st"
proof -
  obtain a st1 where a: "allocEnv \<lparr>envMap = None, enclosing = Closure f, envInterpreter = True\<rparr> st = (a, st1)"
    by (cases "allocEnv \<lparr>envMap = None, enclosing = Closure f, envInterpreter = True\<rparr> st")
  have e1: "env st1 = env st" using env_allocEnv [of _ st] a by (metis snd_conv)
  obtain r st2 where b: "bindParams (Params (Declaration f)) params a st1 = (r, st2)"
    by (cases "bindParams (Params (Declaration f)) params a st1")
  have e2: "env st2 = env st1" using env_bindParams [of _ params a st1] b by (metis snd_conv)
  obtain r3 st3 where x: "executeBlock ex (Body (Declaration f)) (Some a) st2 = (r3, st3)"
    by (cases "executeBlock ex (Body (Declaration f)) (Some a) st2")
  have e3: "env st3 = env st2" using env_executeBlock [of ex "Body (Declaration f)" "Some a" st2] x by simp
  show ?thesis
    using a b x e1 e2 e3
    by (auto simp: callFunction_def split: option.splits panic.splits)
qed

lemma env_callClass: "env (snd (callClass ex cls args st)) = env st"
proof -
  obtain i st1 where a: "allocInstance \<lparr>instClass = cls, Fields = None\<rparr> st = (i, st1)"
    by (cases "allocInstance \<lparr>instClass = cls, Fields = None\<rparr> st")
  have e1: "env st1 = env st" using env_allocInstance [of _ st] a by (metis snd_conv)
  show ?thesis
  proof (cases "findMethod cls ''init''")
    case None
    then show ?thesis using a e1 by (simp add: callClass_def)
  next
    case (Some initializer)
    obtain b st2 where b: "bindMethodToInstance initializer i st1 = (b, st2)"
      by (cases "bindMethodToInstance initializer i st1")
    have e2: "env st2 = env st1" using env_bindMethodToInstance [of initializer i st1] b by simp
    obtain r st3 where c: "callFunction ex b args st2 = (r, st3)"
      by (cases "callFunction ex b args st2")
    have e3: "env st3 = env st2" using env_callFunction [of ex b args st2] c by simp
    show ?thesis
      using a Some b c e1 e2 e3 by (cases r) (simp_all add: callClass_def)
  qed
qed

lemma env_callValue: "env (snd (callValue ex callee paren args st)) = env st"
  by (cases callee)
     (auto simp: callValue_def env_callFunction env_callClass env_readClock split: prod.splits,
      metis env_readClock snd_conv)


lemma env_evaluateArgs:
  "keepsEnvV ev \<Longrightarrow> env (snd (evaluateArgs ev es st)) = env st"
proof (induction es arbitrary: st)
  case Nil
  then show ?case by simp
next
  case (Cons e es)
  obtain r st1 where r: "ev e st = (r, st1)" by (cases "ev e st")
  have e1: "env st1 = env st" using Cons.prems r by (rule keepsEnvV_D)
  obtain r2 st2 where r2: "evaluateArgs ev es st1 = (r2, st2)" by (cases "evaluateArgs ev es st1")
  have e2: "env st2 = env st1" using Cons.IH [OF Cons.prems, of st1] r2 by simp
  show ?case
    using r r2 e1 e2 by (cases r; cases r2) simp_all
qed

lemma env_VisitAssign:
  "keepsEnvV ev \<Longrightarrow> env (snd (VisitAssign ev name v st)) = env st"
  by (auto simp: VisitAssign_def split: prod.splits sum.splits option.splits;
      metis keepsEnvV_D keepsEnvX_D env_assignAt env_assign env_envDefine snd_conv prod.collapse)

lemma env_VisitBinary:
  "keepsEnvV ev \<Longrightarrow> env (snd (VisitBinary ev l opr r st)) = env st"
  by (auto simp: VisitBinary_def split: prod.splits sum.splits;
      metis keepsEnvV_D keepsEnvX_D env_assignAt env_assign env_envDefine snd_conv prod.collapse)

lemma env_VisitCall:
  assumes "keepsEnvV ev"
  shows "env (snd (VisitCall ev ex c paren args st)) = env st"
proof -
  obtain r st1 where r: "ev c st = (r, st1)" by (cases "ev c st")
  have e1: "env st1 = env st" using assms r by (rule keepsEnvV_D)
  obtain r2 st2 where r2: "evaluateArgs ev args st1 = (r2, st2)"
    by (cases "evaluateArgs ev args st1")
  have e2: "env st2 = env st1" using env_evaluateArgs [OF assms, of args st1] r2 by simp
  show ?thesis
    using r r2 e1 e2 by (cases r; cases r2) (simp_all add: VisitCall_def env_callValue)
qed

lemma env_VisitGet:
  "keepsEnvV ev \<Longrightarrow> env (snd (VisitGet ev obj name st)) = env st"
  by (auto simp: VisitGet_def env_instanceGet split: prod.splits sum.splits val.splits;
      metis keepsEnvV_D keepsEnvX_D env_assignAt env_assign env_envDefine snd_conv prod.collapse)

lemma env_VisitSet:
  "keepsEnvV ev \<Longrightarrow> env (snd (VisitSet ev obj name v st)) = env st"
  by (auto simp: VisitSet_def env_instanceSet split: prod.splits sum.splits val.splits;
      metis keepsEnvV_D keepsEnvX_D env_assignAt env_assign env_envDefine snd_conv prod.collapse)

lemma env_VisitLogical:
  "keepsEnvV ev \<Longrightarrow> env (snd (VisitLogical ev l opr r st)) = env st"
  by (auto simp: VisitLogical_def split: prod.splits sum.splits;
      metis keepsEnvV_D keepsEnvX_D env_assignAt env_assign env_envDefine snd_conv prod.collapse)

lemma env_VisityUnary:
  "keepsEnvV ev \<Longrightarrow> env (snd (VisityUnary ev opr r st)) = env st"
  by (auto simp: VisityUnary_def split: prod.splits sum.splits;
      metis keepsEnvV_D keepsEnvX_D env_assignAt env_assign env_envDefine snd_conv prod.collapse)

lemma env_acceptExpr:
  assumes "keepsEnvV ev"
  shows "env (snd (acceptExpr ev ex e st)) = env st"
  using assms
  by (cases e)
     (simp_all add: acceptExpr_def env_VisitAssign env_VisitBinary env_VisitCall env_VisitGet
        env_VisitSet env_VisitLogical env_VisityUnary env_VisitSuper keepsEnvV_def)

lemma env_VisitBlockStmt: "env (snd (VisitBlockStmt ex ss st)) = env st"
  by (simp add: VisitBlockStmt_def allocEnv_def env_executeBlock)

lemma env_VisitClassStmt:
  "keepsEnvV ev \<Longrightarrow> env (snd (VisitClassStmt ev name superclass ms st)) = env st"
  by (auto simp: VisitClassStmt_def env_declareClass
           split: option.splits prod.splits sum.splits val.splits;
      metis keepsEnvV_D keepsEnvX_D env_assignAt env_assign env_envDefine snd_conv prod.collapse)

lemma env_VisitExpressionStmt:
  "keepsEnvV ev \<Longrightarrow> env (snd (VisitExpressionStmt ev e st)) = env st"
  by (auto simp: VisitExpressionStmt_def split: prod.splits sum.splits;
      metis keepsEnvV_D keepsEnvX_D env_assignAt env_assign env_envDefine snd_conv prod.collapse)

lemma env_VisitFunctionStmt: "env (snd (VisitFunctionStmt f st)) = env st"
  by (simp add: VisitFunctionStmt_def env_envDefine)

lemma env_VisitIfStmt:
  "keepsEnvV ev \<Longrightarrow> keepsEnvX ex \<Longrightarrow> env (snd (VisitIfStmt ev ex c t e st)) = env st"
  by (auto simp: VisitIfStmt_def split: prod.splits sum.splits option.splits;
      metis keepsEnvV_D keepsEnvX_D env_assignAt env_assign env_envDefine snd_conv prod.collapse)

lemma env_VisitPrintStmt:
  "keepsEnvV ev \<Longrightarrow> env (snd (VisitPrintStmt ev e st)) = env st"
  by (auto simp: VisitPrintStmt_def split: prod.splits sum.splits;
      metis keepsEnvV_D keepsEnvX_D env_assignAt env_assign env_envDefine snd_conv prod.collapse)

lemma env_VisitReturnStmt:
  "keepsEnvV ev \<Longrightarrow> env (snd (VisitReturnStmt ev v st)) = env st"
  by (auto simp: VisitReturnStmt_def split: prod.splits sum.splits option.splits;
      metis keepsEnvV_D keepsEnvX_D env_assignAt env_assign env_envDefine snd_conv prod.collapse)

lemma env_VisitVarStmt:
  "keepsEnvV ev \<Longrightarrow> env (snd (VisitVarStmt ev name i st)) = env st"
  by (auto simp: VisitVarStmt_def env_envDefine split: prod.splits sum.splits option.splits;
      metis keepsEnvV_D keepsEnvX_D env_assignAt env_assign env_envDefine snd_conv prod.collapse)

lemma env_VisitWhileStmt:
  "keepsEnvV ev \<Longrightarrow> keepsEnvX ex \<Longrightarrow> env (snd (VisitWhileStmt ev ex c b st)) = env st"
  by (auto simp: VisitWhileStmt_def split: prod.splits sum.splits option.splits;
      metis keepsEnvV_D keepsEnvX_D env_assignAt env_assign env_envDefine snd_conv prod.collapse)

lemma env_acceptStmt:
  assumes "keepsEnvV ev" and "keepsEnvX ex"
  shows "env (snd (acceptStmt ev ex s st)) = env st"
  using assms
  by (cases s)
     (simp_all add: acceptStmt_def env_VisitBlockStmt env_VisitClassStmt
        env_VisitExpressionStmt env_VisitFunctionStmt env_VisitIfStmt env_VisitPrintStmt
        env_VisitReturnStmt env_VisitVarStmt env_VisitWhileStmt)

lemma interp_keeps_env: "keepsEnvV (evaluate n) \<and> keepsEnvX (execute n)"
proof (induction n)
  case 0
  show ?case by (simp add: keepsEnvV_def keepsEnvX_def evaluate_0 execute_0)
next
  case (Suc n)
  then have v: "keepsEnvV (evaluate n)" and x: "keepsEnvX (execute n)" by simp_all
  show ?case
    unfolding keepsEnvV_def keepsEnvX_def
    by (simp add: evaluate_Suc execute_Suc env_acceptExpr [OF v] env_acceptStmt [OF v x])
qed

text \<open>
  C6. The current environment after a block, after a call of a function (\<^verbatim>\<open>Function.Call\<close>
  itself, and a call expression) and after a class declaration with a superclass is the
  one before it, whatever the construct returns: nothing (normal completion), the
  \<^verbatim>\<open>returnable\<close> of a return statement on its way up, a runtime error or any other
  panic. \<^verbatim>\<open>executeBlock\<close> restores it in a deferred function; \<^verbatim>\<open>VisitClassStmt\<close> sets it
  to the environment of \<^verbatim>\<open>super\<close> and back to the enclosing one with nothing in between
  that can panic.
\<close>

theorem current_environment_restored:
  "(\<forall>r st'. execute n (BlockStmt ss) st = (r, st') \<longrightarrow> env st' = env st)
   \<and> (\<forall>r st'. executeBlock (execute n) ss newEnv st = (r, st') \<longrightarrow> env st' = env st)
   \<and> (\<forall>r st'. callFunction (execute n) f args st = (r, st') \<longrightarrow> env st' = env st)
   \<and> (\<forall>r st'. evaluate n (Call callee paren argExprs) st = (r, st') \<longrightarrow> env st' = env st)
   \<and> (\<forall>r st'. execute n (ClassStmt name (Some super) ms) st = (r, st') \<longrightarrow> env st' = env st)"
proof -
  have v: "keepsEnvV (evaluate n)" and x: "keepsEnvX (execute n)"
    using interp_keeps_env [of n] by simp_all
  have b: "\<And>r st'. executeBlock (execute n) ss newEnv st = (r, st') \<Longrightarrow> env st' = env st"
    using env_executeBlock [of "execute n" ss newEnv st] by simp
  have c: "\<And>r st'. callFunction (execute n) f args st = (r, st') \<Longrightarrow> env st' = env st"
    using env_callFunction [of "execute n" f args st] by simp
  show ?thesis
    using keepsEnvX_D [OF x] keepsEnvV_D [OF v] b c by blast
qed

theorem current_environment_restored_witness:
  "env (init NewInterpreter) = Some 0
   \<and> execute 3 (BlockStmt [VariableStmt (tok IDENTIFIER ''a'') None]) (init NewInterpreter)
       = (None, (init NewInterpreter)
            \<lparr>envs := envs (init NewInterpreter)
               @ [\<lparr>envMap = Some [(''a'', VNil)], enclosing = Some 0, envInterpreter = True\<rparr>]\<rparr>)
   \<and> fst (execute 3 (BlockStmt [ReturnStmt (tok RETURN ''return'') None]) (init NewInterpreter))
       = Some (Returnable VNil)
   \<and> env (snd (execute 3 (BlockStmt [ReturnStmt (tok RETURN ''return'') None])
                 (init NewInterpreter))) = Some 0
   \<and> fst (execute 4 (BlockStmt [ExprStmt (Binary (Literal LNil) plusToken (Literal LNil))])
            (init NewInterpreter))
       = Some (RuntimeError 1 (PlusOperands VNil))
   \<and> env (snd (execute 4 (BlockStmt [ExprStmt (Binary (Literal LNil) plusToken (Literal LNil))])
                 (init NewInterpreter))) = Some 0
   \<and> fst (callFunction (execute 3)
            (Function (FunctionStmt (tok IDENTIFIER ''f'') []
                         [ReturnStmt (tok RETURN ''return'') (Some (Literal (LNum (Fin 1))))])
               (Some 0) False) [] (init NewInterpreter))
       = Inr (VNum (Fin 1))
   \<and> env (snd (callFunction (execute 3)
            (Function (FunctionStmt (tok IDENTIFIER ''f'') []
                         [ReturnStmt (tok RETURN ''return'') (Some (Literal (LNum (Fin 1))))])
               (Some 0) False) [] (init NewInterpreter))) = Some 0
   \<and> fst (execute 3 (ClassStmt (tok IDENTIFIER ''B'') (Some (tok IDENTIFIER ''A'', 0)) [])
            (snd (execute 3 (ClassStmt (tok IDENTIFIER ''A'') None []) (init NewInterpreter))))
       = None
   \<and> env (snd (execute 3 (ClassStmt (tok IDENTIFIER ''B'') (Some (tok IDENTIFIER ''A'', 0)) [])
            (snd (execute 3 (ClassStmt (tok IDENTIFIER ''A'') None []) (init NewInterpreter)))))
       = Some 0"
proof -
  note block = current_environment_restored [THEN conjunct1, rule_format, OF prod.collapse [symmetric]]
  note call = current_environment_restored
                [THEN conjunct2, THEN conjunct2, THEN conjunct1, rule_format,
                 OF prod.collapse [symmetric]]
  note cls = current_environment_restored
               [THEN conjunct2, THEN conjunct2, THEN conjunct2, THEN conjunct2, rule_format,
                OF prod.collapse [symmetric]]
  have i: "env (init NewInterpreter) = Some 0"
    by (simp add: interp_defs)
  have a: "env (snd (execute 3 (ClassStmt (tok IDENTIFIER ''A'') None []) (init NewInterpreter)))
             = Some 0"
    by (simp add: interp_defs tok_def split del: if_split)
  have b1: "execute 3 (BlockStmt [VariableStmt (tok IDENTIFIER ''a'') None]) (init NewInterpreter)
       = (None, (init NewInterpreter)
            \<lparr>envs := envs (init NewInterpreter)
               @ [\<lparr>envMap = Some [(''a'', VNil)], enclosing = Some 0, envInterpreter = True\<rparr>]\<rparr>)"
    by (simp add: interp_defs tok_def split del: if_split)
  have b2: "fst (execute 3 (BlockStmt [ReturnStmt (tok RETURN ''return'') None])
                   (init NewInterpreter)) = Some (Returnable VNil)"
    by (simp add: interp_defs tok_def split del: if_split)
  have b3: "fst (execute 4 (BlockStmt [ExprStmt (Binary (Literal LNil) plusToken (Literal LNil))])
                   (init NewInterpreter)) = Some (RuntimeError 1 (PlusOperands VNil))"
    by (simp add: interp_defs tok_def plusToken_def split del: if_split)
  have c: "fst (callFunction (execute 3)
            (Function (FunctionStmt (tok IDENTIFIER ''f'') []
                         [ReturnStmt (tok RETURN ''return'') (Some (Literal (LNum (Fin 1))))])
               (Some 0) False) [] (init NewInterpreter))
       = Inr (VNum (Fin 1))"
    by (simp add: interp_defs tok_def split del: if_split)
  have d: "fst (execute 3 (ClassStmt (tok IDENTIFIER ''B'') (Some (tok IDENTIFIER ''A'', 0)) [])
            (snd (execute 3 (ClassStmt (tok IDENTIFIER ''A'') None []) (init NewInterpreter))))
       = None"
    by (simp add: interp_defs tok_def split del: if_split)
  show ?thesis
    unfolding block call cls i a by (intro conjI refl b1 b2 b3 c d)
qed


section \<open>Programs that the implementation gets wrong\<close>

lemmas driver_defs = run_def runTokens_def resolveAndInterpret_def tok_def

text \<open>
  C2. The initializer \<^verbatim>\<open>init(){return;}\<close> called on an instance: the program
  \<^verbatim>\<open>class F{init(){return;}}print F();print F().init();\<close> prints the instance for the
  construction \<^verbatim>\<open>F()\<close>, and nil for the explicit call \<^verbatim>\<open>F().init()\<close>:
  \<^verbatim>\<open>Function.Call\<close> returns the value of the recovered \<^verbatim>\<open>returnable\<close>.
\<close>

theorem initializer_bare_return_yields_nil:
  "fst (runTokens 8 pick initTokens NewInterpreter) = Completed
   \<and> Stdout (snd (runTokens 8 pick initTokens NewInterpreter)) = [VInstance 0, VNil]"
  by (simp add: driver_defs initTokens_def parser_defs resolver_defs interp_defs
        split del: if_split)

text \<open>
  C3. The program \<^verbatim>\<open>return;\<close>: the resolver accepts it, \<^verbatim>\<open>VisitReturnStmt\<close> panics with
  a \<^verbatim>\<open>returnable\<close>, and the deferred function of \<^verbatim>\<open>Interpret\<close> asserts that the
  recovered value is a \<^verbatim>\<open>runtimeError\<close>: the assertion fails and its panic leaves
  \<^verbatim>\<open>Interpret\<close> and the driver.
\<close>

theorem top_level_return_crashes:
  "fst (run 2 pick ''return;'' NewInterpreter) = Crashed TypeAssertion"
  by (simp add: driver_defs scanner_defs parser_defs resolver_defs interp_defs
        split del: if_split)

text \<open>
  C1. In \<^verbatim>\<open>class A{m(){print this;{print this;}}}A().m();\<close> the resolver records depth 2
  for the node \<^verbatim>\<open>This{this, line 1}\<close>, the depth of the occurrence inside the block. The
  first \<^verbatim>\<open>print this\<close> evaluates the same node in the environment of the call: two
  environments up is the global one, which has no \<^verbatim>\<open>this\<close>, and \<^verbatim>\<open>getAt\<close> raises
  "Undefined (local) variable".
\<close>

theorem recorded_depth_misses_binding:
  "fst (runTokens 8 pick thisTokens NewInterpreter) = InterpretFailed 1 (UndefinedLocal ''this'')
   \<and> localDistance (snd (runTokens 8 pick thisTokens NewInterpreter))
       = Some [(This (tok THIS ''this''), 2)]"
  by (simp add: driver_defs thisTokens_def parser_defs resolver_defs interp_defs
        split del: if_split)

text \<open>
  C4. The two assignments of \<^verbatim>\<open>{var a;a=nil;{a=nil;}}\<close> are parsed to the same
  \<^verbatim>\<open>Assign\<close> value, which is one key of the table: resolving the second (depth 1)
  overwrites what resolving the first recorded (depth 0, as the program without the
  inner block shows).
\<close>

theorem assign_occurrences_collide:
  "Parse 5 assignTokens
     = Inr [BlockStmt [VariableStmt (tok IDENTIFIER ''a'') None, ExprStmt assignNode,
                       BlockStmt [ExprStmt assignNode]]]
   \<and> Parse 5 assignTokensShort
     = Inr [BlockStmt [VariableStmt (tok IDENTIFIER ''a'') None, ExprStmt assignNode]]
   \<and> localDistance (interpreter (snd (Resolve
         [BlockStmt [VariableStmt (tok IDENTIFIER ''a'') None, ExprStmt assignNode]]
         (NewResolver pick NewInterpreter)))) = Some [(assignNode, 0)]
   \<and> localDistance (interpreter (snd (Resolve
         [BlockStmt [VariableStmt (tok IDENTIFIER ''a'') None, ExprStmt assignNode,
                     BlockStmt [ExprStmt assignNode]]]
         (NewResolver pick NewInterpreter)))) = Some [(assignNode, 1)]
   \<and> fst (runTokens 5 pick assignTokens NewInterpreter)
     = InterpretFailed 1 (UndefinedLocalAssign ''a'')"
  by (simp add: driver_defs assignTokens_def assignTokensShort_def assignNode_def parser_defs
        resolver_defs interp_defs split del: if_split)

text \<open>
  C9. An unexpected character: the panic of \<^verbatim>\<open>scanToken\<close> names the character and
  nothing else, so the same panic ends the scan of \<^verbatim>\<open>@\<close> on line 1 and on line 2. An
  unterminated string: the panic of \<^verbatim>\<open>scanString\<close> carries the current line.
\<close>

theorem unexpected_character_without_line:
  "ScanTokens ''@'' = Inl (UnexpectedCharacter CHR ''@'')
   \<and> ScanTokens [CHR 0x0A, CHR ''@''] = Inl (UnexpectedCharacter CHR ''@'')
   \<and> ScanTokens [CHR 0x0A, CHR 0x22, CHR ''a''] = Inl (UnterminatedString 2)"
  by (simp add: scanner_defs split del: if_split)

end
